theory Spec2Isabelle
  imports Complex_Main "HOL-Library.Sublist"
begin

section \<open>JavaScript values\<close>

text \<open>
  The error wrapper of \<^verbatim>\<open>packages/fxa-auth-server/error.js\<close> inspects its argument
  with \<^verbatim>\<open>typeof\<close>, strict equality, truthiness and, for the message, a conversion to a
  string, so a value is modelled by its JavaScript type and content. A number is a finite
  value, \<^verbatim>\<open>NaN\<close> or an infinity; the code does no arithmetic on the numbers it is given,
  so a finite number is kept as a rational. A nested object is carried as the list of its
  own fields and inherits from \<^verbatim>\<open>Object.prototype\<close>; an array as the list of its elements.
  No value is a function: a property that holds a value of the model cannot be called.
\<close>

datatype jsnum = Finite rat | NaN | PosInfinity | NegInfinity

datatype jsval =
    Undefined
  | Null
  | Bool bool
  | Num jsnum
  | Str string
  | Obj "(string \<times> jsval) list"
  | Arr "jsval list"

abbreviation Number :: "rat \<Rightarrow> jsval" where
  "Number q \<equiv> Num (Finite q)"

text \<open>The one exception the statements of the module can raise.\<close>

datatype error = TypeError

fun typeof :: "jsval \<Rightarrow> string" where
  "typeof Undefined = ''undefined''"
| "typeof Null = ''object''"
| "typeof (Bool b) = ''boolean''"
| "typeof (Num n) = ''number''"
| "typeof (Str s) = ''string''"
| "typeof (Obj fs) = ''object''"
| "typeof (Arr xs) = ''object''"

text \<open>Truthiness, as \<^verbatim>\<open>message || '...'\<close> tests it.\<close>

fun truthy :: "jsval \<Rightarrow> bool" where
  "truthy Undefined = False"
| "truthy Null = False"
| "truthy (Bool b) = b"
| "truthy (Num (Finite q)) = (q \<noteq> 0)"
| "truthy (Num NaN) = False"
| "truthy (Num PosInfinity) = True"
| "truthy (Num NegInfinity) = True"
| "truthy (Str s) = (s \<noteq> [])"
| "truthy (Obj fs) = True"
| "truthy (Arr xs) = True"

text \<open>A number with no fractional part: what the specification calls an integer.\<close>

fun is_integer :: "jsval \<Rightarrow> bool" where
  "is_integer (Num (Finite q)) = (of_int \<lfloor>q\<rfloor> = q)"
| "is_integer v = False"

fun is_nonempty_string :: "jsval \<Rightarrow> bool" where
  "is_nonempty_string (Str s) = (s \<noteq> [])"
| "is_nonempty_string v = False"

subsection \<open>Conversion to a string\<close>

text \<open>
  The text of a number. For a whole number below ten to the power 21 it is the text JavaScript
  gives: the sign and the decimal digits. For the other finite numbers JavaScript goes on
  with a point or an exponent, which depend on the binary representation; the text here
  stops after the whole part. Either text starts with a digit or a minus sign, and the
  module only tests it against a pattern that starts with the letter P.
\<close>

fun digits :: "nat \<Rightarrow> string" where
  "digits n =
     (if n < 10 then [''0123456789'' ! n]
      else digits (n div 10) @ [''0123456789'' ! (n mod 10)])"

fun number_text :: "jsnum \<Rightarrow> string" where
  "number_text NaN = ''NaN''"
| "number_text PosInfinity = ''Infinity''"
| "number_text NegInfinity = ''-Infinity''"
| "number_text (Finite q) =
     (if q < 0 then ''-'' else '''') @ digits (nat \<lfloor>\<bar>q\<bar>\<rfloor>)"

text \<open>
  \<^verbatim>\<open>ToString\<close>, which \<^verbatim>\<open>RegExp.prototype.test\<close> applies to its argument. An object is
  converted by its \<^verbatim>\<open>toString\<close> method, and failing that by \<^verbatim>\<open>valueOf\<close>: an object
  with no own \<^verbatim>\<open>toString\<close> inherits the one of \<^verbatim>\<open>Object.prototype\<close>; an own
  \<^verbatim>\<open>toString\<close> hides it and cannot be called, the \<^verbatim>\<open>valueOf\<close> that is then tried
  either cannot be called (an own one) or returns the object itself (the inherited one),
  and the conversion throws. An array is converted by \<^verbatim>\<open>join\<close>: its elements, converted
  from left to right, with commas between them and nothing for \<^verbatim>\<open>undefined\<close> and
  \<^verbatim>\<open>null\<close>.
\<close>

fun to_string :: "jsval \<Rightarrow> error + string"
  and join :: "jsval list \<Rightarrow> error + string"
where
  "to_string Undefined = Inr ''undefined''"
| "to_string Null = Inr ''null''"
| "to_string (Bool b) = Inr (if b then ''true'' else ''false'')"
| "to_string (Num n) = Inr (number_text n)"
| "to_string (Str s) = Inr s"
| "to_string (Obj fs) =
     (if map_of fs ''toString'' \<noteq> None then Inl TypeError else Inr ''[object Object]'')"
| "to_string (Arr xs) = join xs"
| "join [] = Inr ''''"
| "join (x # xs) =
     (case (if x = Undefined \<or> x = Null then Inr '''' else to_string x) of
        Inl e \<Rightarrow> Inl e
      | Inr s \<Rightarrow>
          (if xs = [] then Inr s
           else case join xs of Inl e \<Rightarrow> Inl e | Inr t \<Rightarrow> Inr (s @ '','' @ t)))"

section \<open>Objects\<close>

text \<open>
  An object freshly built by the module (an object literal, a copy, a payload) is a finite
  map from property names to values; reading a property that is not there gives
  \<^verbatim>\<open>undefined\<close>. An object that comes from outside is an ordinary object with data
  properties: each own property is enumerable or not (the \<^verbatim>\<open>message\<close> of an
  \<^verbatim>\<open>Error\<close> instance is not), and what it does not have itself it inherits from
  \<^verbatim>\<open>Object.prototype\<close>.
\<close>

type_synonym obj = "string \<rightharpoonup> jsval"

record js_object =
  props :: obj
  enumerable :: "string \<Rightarrow> bool"

definition plain :: "obj \<Rightarrow> js_object" where
  "plain fs = \<lparr>props = fs, enumerable = (\<lambda>k. True)\<rparr>"

definition get :: "obj \<Rightarrow> string \<Rightarrow> jsval" where
  "get object k = (case object k of None \<Rightarrow> Undefined | Some v \<Rightarrow> v)"

text \<open>
  The argument of \<^verbatim>\<open>wrap\<close>: an object, or one of the two values that have no
  properties at all. The callers of \<^verbatim>\<open>wrap\<close> pass it error objects; a number, a string
  or a boolean as the argument is left out.
\<close>

datatype jsarg = ArgUndefined | ArgNull | ArgObject js_object

abbreviation object_literal :: "obj \<Rightarrow> jsarg" where
  "object_literal fs \<equiv> ArgObject (plain fs)"

text \<open>The own properties of the argument, and those of them that \<^verbatim>\<open>Object.keys\<close> lists.\<close>

fun own_props :: "jsarg \<Rightarrow> obj" where
  "own_props (ArgObject ob) = props ob"
| "own_props ArgUndefined = Map.empty"
| "own_props ArgNull = Map.empty"

fun enumerable_props :: "jsarg \<Rightarrow> obj" where
  "enumerable_props (ArgObject ob) = (\<lambda>k. if enumerable ob k then props ob k else None)"
| "enumerable_props ArgUndefined = Map.empty"
| "enumerable_props ArgNull = Map.empty"

text \<open>
  The call \<^verbatim>\<open>srcObject.hasOwnProperty(k)\<close> of line 38. The method is looked up on the
  argument first: \<^verbatim>\<open>undefined\<close> and \<^verbatim>\<open>null\<close> have no properties, and an own property
  named \<^verbatim>\<open>hasOwnProperty\<close> hides the method of \<^verbatim>\<open>Object.prototype\<close> and cannot be
  called. In both cases the call throws; otherwise it tells whether \<^verbatim>\<open>k\<close> is an own
  property.
\<close>

fun hasOwnProperty :: "jsarg \<Rightarrow> string \<Rightarrow> error + bool" where
  "hasOwnProperty ArgUndefined k = Inl TypeError"
| "hasOwnProperty ArgNull k = Inl TypeError"
| "hasOwnProperty (ArgObject ob) k =
     (if props ob ''hasOwnProperty'' \<noteq> None then Inl TypeError
      else Inr (props ob k \<noteq> None))"

section \<open>The library: Hoek and Boom\<close>

text \<open>
  Modelled from the spec: \<^verbatim>\<open>Hoek.applyToDefaults\<close> of the hapi library, which is not
  part of the sources. Section 4.4, step 1: ``start from the defaults, overlay every
  enumerable field of rawError''. The result is a new object; neither argument changes.
\<close>

definition applyToDefaults :: "obj \<Rightarrow> jsarg \<Rightarrow> obj" where
  "applyToDefaults defaults options = defaults ++ enumerable_props options"

text \<open>
  Modelled from the spec: \<^verbatim>\<open>Hoek.merge\<close> of the hapi library, which is not part of the
  sources. Section 4.4, step 5: ``merge all accumulated fields onto it''.
\<close>

definition merge :: "obj \<Rightarrow> obj \<Rightarrow> obj" where
  "merge target source = target ++ source"

text \<open>
  Modelled from the spec: the \<^verbatim>\<open>Boom\<close> constructor of the hapi library, which is not
  part of the sources. Section 4.4, step 5: ``construct the final response object with
  the sanitized status and message [...]. This step never raises''. The response carries
  the status and the payload that is rendered to the client (section 6). The optional
  generic label \<^verbatim>\<open>error\<close> of the wire format is left out: \<^verbatim>\<open>wrap\<close> never reads it.
\<close>

record boom =
  response_code :: jsval
  payload :: obj

definition Boom :: "jsval \<Rightarrow> jsval \<Rightarrow> boom" where
  "Boom code message =
     \<lparr>response_code = code, payload = [''code'' \<mapsto> code, ''message'' \<mapsto> message]\<rparr>"

text \<open>
  The logger handed to the module (line 15). Only \<^verbatim>\<open>log.error\<close> is called, and the
  logger only records: an event keeps the severity and the object it was given, as that
  object is at the call.
\<close>

record log_event =
  level :: string
  op :: string
  msg :: string
  err :: obj

section \<open>error.js\<close>

definition DEFAULTS :: obj where
  "DEFAULTS = [
     ''message'' \<mapsto> Str ''Unspecified error'',
     ''info'' \<mapsto> Str ''https://github.com/mozilla/fxa-auth-server/blob/master/docs/api.md#response-format'']"

text \<open>
  \<^verbatim>\<open>TOO_LARGE.test(v)\<close> for the pattern
  \<^verbatim>\<open>/^Payload (?:content length|size) greater than maximum allowed/\<close> of line 13: the
  argument is converted to a string, which can throw, and the text is matched when it
  starts with ``Payload '', one of the two alternatives and the rest of the sentence.
\<close>

definition TOO_LARGE_test :: "jsval \<Rightarrow> error + bool" where
  "TOO_LARGE_test v =
     (case to_string v of
        Inl e \<Rightarrow> Inl e
      | Inr s \<Rightarrow>
          Inr (list_ex (\<lambda>alt. prefix (''Payload '' @ alt @ '' greater than maximum allowed'') s)
                 [''content length'', ''size'']))"

text \<open>
  \<^verbatim>\<open>errors.wrap\<close> (lines 33 to 88) and the helpers it calls (lines 162 to 209), which
  call it back. The first argument is the clock, in milliseconds since the epoch, as
  \<^verbatim>\<open>+new Date()\<close> reads it. The result is the exception thrown, or the list of events
  sent to the logger, in order, and the Boom error returned; nothing is logged before
  the statements that can throw (lines 38 and 59). A local assignment
  \<^verbatim>\<open>object.code = ...\<close> updates the working object;
  \<^verbatim>\<open>object = errors.f().response.payload\<close> replaces it.
\<close>

function wrap :: "int \<Rightarrow> jsarg \<Rightarrow> error + log_event list \<times> boom"
  and invalidSignature :: "int \<Rightarrow> jsval \<Rightarrow> error + log_event list \<times> boom"
  and invalidToken :: "int \<Rightarrow> error + log_event list \<times> boom"
  and invalidTimestamp :: "int \<Rightarrow> error + log_event list \<times> boom"
  and invalidNonce :: "int \<Rightarrow> error + log_event list \<times> boom"
  and requestBodyTooLarge :: "int \<Rightarrow> error + log_event list \<times> boom"
where
  "wrap now srcObject =
     (let object = applyToDefaults DEFAULTS srcObject in
      case hasOwnProperty srcObject ''message'' of
        Inl e \<Rightarrow> Inl e
      | Inr own \<Rightarrow>
     (let object = (if own
                    then object(''message'' \<mapsto> get (own_props srcObject) ''message'')
                    else object) in
      case
            (if typeof (get object ''errno'') = ''undefined'' then
               (if get object ''code'' = Number 401 then
                  (if get object ''message'' = Str ''Unknown credentials'' then
                     map_sum id (map_prod id payload) (invalidToken now)
                   else if get object ''message'' = Str ''Invalid credentials'' then
                     map_sum id (map_prod id payload) (invalidToken now)
                   else if get object ''message'' = Str ''Stale timestamp'' then
                     map_sum id (map_prod id payload) (invalidTimestamp now)
                   else if get object ''message'' = Str ''Invalid nonce'' then
                     map_sum id (map_prod id payload) (invalidNonce now)
                   else
                     map_sum id (map_prod id payload)
                       (invalidSignature now (get object ''message'')))
                else if get object ''code'' = Number 400 then
                  (case TOO_LARGE_test (get object ''message'') of
                     Inl e \<Rightarrow> Inl e
                   | Inr matched \<Rightarrow>
                       if matched then
                         map_sum id (map_prod id payload) (requestBodyTooLarge now)
                       else Inr ([], object))
                else Inr ([], object))
             else Inr ([], object))
      of
        Inl e \<Rightarrow> Inl e
      | Inr (log1, object) \<Rightarrow>
     (let object =
            (if typeof (get object ''code'') = ''undefined'' then
               (if get object ''errno'' \<in> {Number 109, Number 110, Number 111}
                then object(''code'' \<mapsto> Number 401)
                else object(''code'' \<mapsto> Number 400))
             else if typeof (get object ''code'') \<noteq> ''number'' then
               object(''code'' \<mapsto> Number 500)
             else object);
          (log2, object) =
            (if typeof (get object ''errno'') = ''undefined'' then
               ([\<lparr>level = ''error'', op = ''error.wrap'', msg = ''unexpected error'',
                  err = object\<rparr>],
                object(''errno'' \<mapsto> Number 999))
             else ([], object));
          b = Boom (get object ''code'') (get object ''message'')
      in Inr (log1 @ log2, b\<lparr>payload := merge (payload b) object\<rparr>))))"
| "invalidSignature now message =
     wrap now (object_literal [
       ''code'' \<mapsto> Number 401,
       ''errno'' \<mapsto> Number 109,
       ''message'' \<mapsto> (if truthy message then message else Str ''Invalid request signature'')])"
| "invalidToken now =
     wrap now (object_literal [
       ''code'' \<mapsto> Number 401,
       ''errno'' \<mapsto> Number 110,
       ''message'' \<mapsto> Str ''Invalid authentication token in request signature''])"
| "invalidTimestamp now =
     wrap now (object_literal [
       ''code'' \<mapsto> Number 401,
       ''errno'' \<mapsto> Number 111,
       ''message'' \<mapsto> Str ''Invalid timestamp in request signature'',
       ''serverTime'' \<mapsto> Number (of_int (now div 1000))])"
| "invalidNonce now =
     wrap now (object_literal [
       ''code'' \<mapsto> Number 401,
       ''errno'' \<mapsto> Number 115,
       ''message'' \<mapsto> Str ''Invalid nonce in request signature''])"
| "requestBodyTooLarge now =
     wrap now (object_literal [
       ''code'' \<mapsto> Number 413,
       ''errno'' \<mapsto> Number 113,
       ''message'' \<mapsto> Str ''Request body too large''])"
  by pat_completeness auto

text \<open>
  \<^verbatim>\<open>wrap\<close> calls a helper only when the working object has no \<^verbatim>\<open>errno\<close>, and every
  helper calls \<^verbatim>\<open>wrap\<close> back with an \<^verbatim>\<open>errno\<close>: the recursion is two calls deep,
  and every call ends, with a result or an exception.
\<close>

termination
  apply (relation "measure (\<lambda>x. case x of
            Inl (Inl (now, srcObject)) \<Rightarrow>
              (if typeof (get (applyToDefaults DEFAULTS srcObject) ''errno'') = ''undefined''
               then 2 else 0)
          | _ \<Rightarrow> 1)")
             apply simp
            apply (auto simp: get_def split: if_splits)[6]
      apply (simp_all add: applyToDefaults_def plain_def get_def map_add_def DEFAULTS_def)
  done

declare wrap.simps [simp del] invalidSignature.simps [simp del] invalidToken.simps [simp del]
  invalidTimestamp.simps [simp del] invalidNonce.simps [simp del]
  requestBodyTooLarge.simps [simp del] digits.simps [simp del]

subsection \<open>Views of the input and of the result\<close>

text \<open>
  The value the overlay of line 37 reads for a property of the argument:
  \<^verbatim>\<open>undefined\<close> when the argument has no such enumerable property.
\<close>

definition field :: "jsarg \<Rightarrow> string \<Rightarrow> jsval" where
  "field srcObject k = get (enumerable_props srcObject) k"

text \<open>
  The call of line 38 returns: the argument is an object and its \<^verbatim>\<open>hasOwnProperty\<close> is
  the method it inherits.
\<close>

definition ordinary :: "jsarg \<Rightarrow> bool" where
  "ordinary srcObject =
     (case hasOwnProperty srcObject ''message'' of Inl e \<Rightarrow> False | Inr own \<Rightarrow> True)"

text \<open>
  The working object after lines 37 to 40, when line 38 returns: the defaults, overlaid
  with the enumerable properties of the argument, and the argument's own \<^verbatim>\<open>message\<close>
  copied explicitly.
\<close>

definition defaulted :: "jsarg \<Rightarrow> obj" where
  "defaulted srcObject =
     (let object = applyToDefaults DEFAULTS srcObject
      in if own_props srcObject ''message'' \<noteq> None
         then object(''message'' \<mapsto> get (own_props srcObject) ''message'')
         else object)"

text \<open>The value that lines 67 to 75 leave in \<^verbatim>\<open>object.code\<close>.\<close>

definition sanitized_code :: "obj \<Rightarrow> jsval" where
  "sanitized_code object =
     (if typeof (get object ''code'') = ''undefined'' then
        (if get object ''errno'' \<in> {Number 109, Number 110, Number 111}
         then Number 401 else Number 400)
      else if typeof (get object ''code'') \<noteq> ''number'' then Number 500
      else get object ''code'')"

text \<open>
  An argument that reaches line 79 with no \<^verbatim>\<open>errno\<close>: line 38 returns, the argument has
  no \<^verbatim>\<open>errno\<close>, its \<^verbatim>\<open>code\<close> is not 401, and it is not 400 unless the test of line 59
  returns false.
\<close>

definition unclassified :: "jsarg \<Rightarrow> bool" where
  "unclassified srcObject =
     (ordinary srcObject \<and>
      field srcObject ''errno'' = Undefined \<and>
      field srcObject ''code'' \<noteq> Number 401 \<and>
      (field srcObject ''code'' \<noteq> Number 400 \<or>
       TOO_LARGE_test (get (defaulted srcObject) ''message'') = Inr False))"

text \<open>
  Whether the call returns; the payload of the error that \<^verbatim>\<open>wrap\<close> returns and the
  events it logs (no payload and no event when it throws).
\<close>

definition returns :: "int \<Rightarrow> jsarg \<Rightarrow> bool" where
  "returns now srcObject = (case wrap now srcObject of Inl e \<Rightarrow> False | Inr r \<Rightarrow> True)"

definition wire :: "int \<Rightarrow> jsarg \<Rightarrow> obj" where
  "wire now srcObject =
     (case wrap now srcObject of Inl e \<Rightarrow> Map.empty | Inr r \<Rightarrow> payload (snd r))"

definition logged :: "int \<Rightarrow> jsarg \<Rightarrow> log_event list" where
  "logged now srcObject =
     (case wrap now srcObject of Inl e \<Rightarrow> [] | Inr r \<Rightarrow> fst r)"

subsection \<open>The statements of wrap, one group at a time\<close>

text \<open>
  After the defaults (lines 37 to 40) the body of \<^verbatim>\<open>wrap\<close> is four groups of
  statements: the \<^verbatim>\<open>errno\<close> (43 to 63), the status (67 to 75), the log (79 to 82) and the
  Boom error (85 to 87). Each group is named here as it stands in \<^verbatim>\<open>wrap\<close>;
  \<^verbatim>\<open>wrap_stages\<close> below proves that the groups compose to the function.
\<close>

definition intuit_errno :: "int \<Rightarrow> obj \<Rightarrow> error + log_event list \<times> obj" where
  "intuit_errno now object =
     (if typeof (get object ''errno'') = ''undefined'' then
        (if get object ''code'' = Number 401 then
           (if get object ''message'' = Str ''Unknown credentials'' then
              map_sum id (map_prod id payload) (invalidToken now)
            else if get object ''message'' = Str ''Invalid credentials'' then
              map_sum id (map_prod id payload) (invalidToken now)
            else if get object ''message'' = Str ''Stale timestamp'' then
              map_sum id (map_prod id payload) (invalidTimestamp now)
            else if get object ''message'' = Str ''Invalid nonce'' then
              map_sum id (map_prod id payload) (invalidNonce now)
            else
              map_sum id (map_prod id payload)
                (invalidSignature now (get object ''message'')))
         else if get object ''code'' = Number 400 then
           (case TOO_LARGE_test (get object ''message'') of
              Inl e \<Rightarrow> Inl e
            | Inr matched \<Rightarrow>
                if matched then
                  map_sum id (map_prod id payload) (requestBodyTooLarge now)
                else Inr ([], object))
         else Inr ([], object))
      else Inr ([], object))"

definition intuit_code :: "obj \<Rightarrow> obj" where
  "intuit_code object =
     (if typeof (get object ''code'') = ''undefined'' then
        (if get object ''errno'' \<in> {Number 109, Number 110, Number 111}
         then object(''code'' \<mapsto> Number 401)
         else object(''code'' \<mapsto> Number 400))
      else if typeof (get object ''code'') \<noteq> ''number'' then
        object(''code'' \<mapsto> Number 500)
      else object)"

definition unexpected :: "obj \<Rightarrow> log_event list \<times> obj" where
  "unexpected object =
     (if typeof (get object ''errno'') = ''undefined'' then
        ([\<lparr>level = ''error'', op = ''error.wrap'', msg = ''unexpected error'',
           err = object\<rparr>],
         object(''errno'' \<mapsto> Number 999))
      else ([], object))"

definition boomify :: "obj \<Rightarrow> boom" where
  "boomify object =
     (let b = Boom (get object ''code'') (get object ''message'')
      in b\<lparr>payload := merge (payload b) object\<rparr>)"

text \<open>Lines 67 to 87 together, from the events and the object that lines 43 to 63 leave.\<close>

definition finish :: "log_event list \<Rightarrow> obj \<Rightarrow> log_event list \<times> boom" where
  "finish log1 object =
     (let object = intuit_code object;
          (log2, object) = unexpected object
      in (log1 @ log2, boomify object))"

section \<open>The module on a heap\<close>

text \<open>
  \<^verbatim>\<open>wrap\<close> above passes objects by value, which hides whether a call writes to an object
  it shares with its caller. The second model keeps the objects in a heap: a variable
  holds an address, an object literal and a copy take a new address, and an assignment
  \<^verbatim>\<open>object.k = v\<close> updates the object at the address. The heap is the list of the objects
  allocated so far, an address is an index in it. The fields themselves hold values as
  before (\<^verbatim>\<open>wrap\<close> never writes into a nested object).
\<close>

type_synonym addr = nat

type_synonym heap = "js_object list"

text \<open>
  The module-level variable \<^verbatim>\<open>DEFAULTS\<close> (lines 8 to 11) holds the first object the module
  allocates; \<^verbatim>\<open>module_heap\<close> is the heap when the module has been loaded.
\<close>

definition DEFAULTS_ref :: addr where
  "DEFAULTS_ref = 0"

definition module_heap :: heap where
  "module_heap = [plain DEFAULTS]"

text \<open>
  Allocation of an object literal; a property read \<^verbatim>\<open>a.k\<close>; an assignment
  \<^verbatim>\<open>a.k = v\<close>, which creates the property (enumerable) when the object has none.
\<close>

definition alloc :: "obj \<Rightarrow> heap \<Rightarrow> addr \<times> heap" where
  "alloc fs h = (length h, h @ [plain fs])"

definition read :: "heap \<Rightarrow> addr \<Rightarrow> string \<Rightarrow> jsval" where
  "read h a k = get (props (h ! a)) k"

definition assign :: "addr \<Rightarrow> string \<Rightarrow> jsval \<Rightarrow> heap \<Rightarrow> heap" where
  "assign a k v h =
     h[a := \<lparr>props = (props (h ! a))(k \<mapsto> v),
             enumerable = (enumerable (h ! a))
               (k := (props (h ! a) k = None \<or> enumerable (h ! a) k))\<rparr>]"

text \<open>
  Modelled from the spec: \<^verbatim>\<open>Hoek.applyToDefaults\<close>, \<^verbatim>\<open>Hoek.merge\<close> and the \<^verbatim>\<open>Boom\<close>
  constructor of the hapi library, which are not part of the sources, on the heap.
  Section 5: ``each \<^verbatim>\<open>wrap\<close> call operates only on its own input and a freshly allocated
  output'', and the defaults are ``never mutated''. So \<^verbatim>\<open>applyToDefaults\<close> builds its
  result in a new object and writes to neither argument; \<^verbatim>\<open>merge\<close> writes the
  enumerable fields of its source onto its target (section 4.4, step 5); \<^verbatim>\<open>Boom\<close>
  allocates the payload of the response.
\<close>

definition applyToDefaults_st :: "addr \<Rightarrow> addr \<Rightarrow> heap \<Rightarrow> addr \<times> heap" where
  "applyToDefaults_st defaults options h =
     alloc (applyToDefaults (props (h ! defaults)) (ArgObject (h ! options))) h"

definition merge_st :: "addr \<Rightarrow> addr \<Rightarrow> heap \<Rightarrow> heap" where
  "merge_st target source h =
     h[target := \<lparr>props = merge (props (h ! target)) (enumerable_props (ArgObject (h ! source))),
                  enumerable = (\<lambda>k. props (h ! target) k = None \<or>
                                     enumerable (h ! target) k)\<rparr>]"

record boom_ref =
  status :: jsval
  payload_ref :: addr

definition Boom_st :: "jsval \<Rightarrow> jsval \<Rightarrow> heap \<Rightarrow> boom_ref \<times> heap" where
  "Boom_st code message h =
     (let (p, h) = alloc [''code'' \<mapsto> code, ''message'' \<mapsto> message] h
      in (\<lparr>status = code, payload_ref = p\<rparr>, h))"

text \<open>
  \<^verbatim>\<open>errors.wrap\<close> and its helpers again, statement by statement, on the heap. The
  argument is the address of an object. The local variable \<^verbatim>\<open>object\<close> is an address;
  \<^verbatim>\<open>object = errors.f().response.payload\<close> rebinds it to the payload of the helper's
  error. The event handed to the logger records the fields of the working object at the
  call. When a statement throws, the result is the exception and the heap as it is then.
\<close>

function wrap_st :: "int \<Rightarrow> addr \<Rightarrow> heap \<Rightarrow> (error + log_event list \<times> boom_ref) \<times> heap"
  and invalidSignature_st ::
    "int \<Rightarrow> jsval \<Rightarrow> heap \<Rightarrow> (error + log_event list \<times> boom_ref) \<times> heap"
  and invalidToken_st :: "int \<Rightarrow> heap \<Rightarrow> (error + log_event list \<times> boom_ref) \<times> heap"
  and invalidTimestamp_st :: "int \<Rightarrow> heap \<Rightarrow> (error + log_event list \<times> boom_ref) \<times> heap"
  and invalidNonce_st :: "int \<Rightarrow> heap \<Rightarrow> (error + log_event list \<times> boom_ref) \<times> heap"
  and requestBodyTooLarge_st :: "int \<Rightarrow> heap \<Rightarrow> (error + log_event list \<times> boom_ref) \<times> heap"
where
  "wrap_st now srcObject h =
     (let (object, h) = applyToDefaults_st DEFAULTS_ref srcObject h in
      case hasOwnProperty (ArgObject (h ! srcObject)) ''message'' of
        Inl e \<Rightarrow> (Inl e, h)
      | Inr own \<Rightarrow>
     (let h = (if own
               then assign object ''message'' (read h srcObject ''message'') h
               else h) in
      case
            (if typeof (read h object ''errno'') = ''undefined'' then
               (if read h object ''code'' = Number 401 then
                  (if read h object ''message'' = Str ''Unknown credentials'' then
                     map_prod (map_sum id (map_prod id payload_ref)) id (invalidToken_st now h)
                   else if read h object ''message'' = Str ''Invalid credentials'' then
                     map_prod (map_sum id (map_prod id payload_ref)) id (invalidToken_st now h)
                   else if read h object ''message'' = Str ''Stale timestamp'' then
                     map_prod (map_sum id (map_prod id payload_ref)) id
                       (invalidTimestamp_st now h)
                   else if read h object ''message'' = Str ''Invalid nonce'' then
                     map_prod (map_sum id (map_prod id payload_ref)) id (invalidNonce_st now h)
                   else
                     map_prod (map_sum id (map_prod id payload_ref)) id
                       (invalidSignature_st now (read h object ''message'') h))
                else if read h object ''code'' = Number 400 then
                  (case TOO_LARGE_test (read h object ''message'') of
                     Inl e \<Rightarrow> (Inl e, h)
                   | Inr matched \<Rightarrow>
                       if matched then
                         map_prod (map_sum id (map_prod id payload_ref)) id
                           (requestBodyTooLarge_st now h)
                       else (Inr ([], object), h))
                else (Inr ([], object), h))
             else (Inr ([], object), h))
      of
        (Inl e, h) \<Rightarrow> (Inl e, h)
      | (Inr (log1, object), h) \<Rightarrow>
     (let h =
            (if typeof (read h object ''code'') = ''undefined'' then
               (if read h object ''errno'' \<in> {Number 109, Number 110, Number 111}
                then assign object ''code'' (Number 401) h
                else assign object ''code'' (Number 400) h)
             else if typeof (read h object ''code'') \<noteq> ''number'' then
               assign object ''code'' (Number 500) h
             else h);
          (log2, h) =
            (if typeof (read h object ''errno'') = ''undefined'' then
               ([\<lparr>level = ''error'', op = ''error.wrap'', msg = ''unexpected error'',
                  err = props (h ! object)\<rparr>],
                assign object ''errno'' (Number 999) h)
             else ([], h));
          (b, h) = Boom_st (read h object ''code'') (read h object ''message'') h;
          h = merge_st (payload_ref b) object h
      in (Inr (log1 @ log2, b), h))))"
| "invalidSignature_st now message h =
     (let (literal, h) = alloc [
            ''code'' \<mapsto> Number 401,
            ''errno'' \<mapsto> Number 109,
            ''message'' \<mapsto> (if truthy message then message else Str ''Invalid request signature'')] h
      in wrap_st now literal h)"
| "invalidToken_st now h =
     (let (literal, h) = alloc [
            ''code'' \<mapsto> Number 401,
            ''errno'' \<mapsto> Number 110,
            ''message'' \<mapsto> Str ''Invalid authentication token in request signature''] h
      in wrap_st now literal h)"
| "invalidTimestamp_st now h =
     (let (literal, h) = alloc [
            ''code'' \<mapsto> Number 401,
            ''errno'' \<mapsto> Number 111,
            ''message'' \<mapsto> Str ''Invalid timestamp in request signature'',
            ''serverTime'' \<mapsto> Number (of_int (now div 1000))] h
      in wrap_st now literal h)"
| "invalidNonce_st now h =
     (let (literal, h) = alloc [
            ''code'' \<mapsto> Number 401,
            ''errno'' \<mapsto> Number 115,
            ''message'' \<mapsto> Str ''Invalid nonce in request signature''] h
      in wrap_st now literal h)"
| "requestBodyTooLarge_st now h =
     (let (literal, h) = alloc [
            ''code'' \<mapsto> Number 413,
            ''errno'' \<mapsto> Number 113,
            ''message'' \<mapsto> Str ''Request body too large''] h
      in wrap_st now literal h)"
  by pat_completeness auto

text \<open>
  As before, a helper is called only for an object with no \<^verbatim>\<open>errno\<close> and calls back with
  a literal that has one.
\<close>

termination
  apply (relation "measure (\<lambda>x. case x of
            Inl (Inl (now, srcObject, h)) \<Rightarrow>
              (if typeof (get (applyToDefaults (props (h ! DEFAULTS_ref))
                    (ArgObject (h ! srcObject))) ''errno'') = ''undefined''
               then 2 else 0)
          | _ \<Rightarrow> 1)")
             apply simp
            apply (auto simp: applyToDefaults_st_def alloc_def read_def assign_def nth_append
                  plain_def get_def split: if_splits)[6]
      apply (auto simp: alloc_def nth_append applyToDefaults_def get_def map_add_def plain_def)
  done

declare wrap_st.simps [simp del] invalidSignature_st.simps [simp del]
  invalidToken_st.simps [simp del] invalidTimestamp_st.simps [simp del]
  invalidNonce_st.simps [simp del] requestBodyTooLarge_st.simps [simp del]

subsection \<open>The statements of wrap on the heap, one group at a time\<close>

definition defaults_stage :: "addr \<Rightarrow> heap \<Rightarrow> (error + addr) \<times> heap" where
  "defaults_stage srcObject h =
     (let (object, h) = applyToDefaults_st DEFAULTS_ref srcObject h in
      case hasOwnProperty (ArgObject (h ! srcObject)) ''message'' of
        Inl e \<Rightarrow> (Inl e, h)
      | Inr own \<Rightarrow>
          (Inr object,
           if own
           then assign object ''message'' (read h srcObject ''message'') h
           else h))"

definition errno_stage ::
  "int \<Rightarrow> addr \<Rightarrow> heap \<Rightarrow> (error + log_event list \<times> addr) \<times> heap" where
  "errno_stage now object h =
     (if typeof (read h object ''errno'') = ''undefined'' then
        (if read h object ''code'' = Number 401 then
           (if read h object ''message'' = Str ''Unknown credentials'' then
              map_prod (map_sum id (map_prod id payload_ref)) id (invalidToken_st now h)
            else if read h object ''message'' = Str ''Invalid credentials'' then
              map_prod (map_sum id (map_prod id payload_ref)) id (invalidToken_st now h)
            else if read h object ''message'' = Str ''Stale timestamp'' then
              map_prod (map_sum id (map_prod id payload_ref)) id (invalidTimestamp_st now h)
            else if read h object ''message'' = Str ''Invalid nonce'' then
              map_prod (map_sum id (map_prod id payload_ref)) id (invalidNonce_st now h)
            else
              map_prod (map_sum id (map_prod id payload_ref)) id
                (invalidSignature_st now (read h object ''message'') h))
         else if read h object ''code'' = Number 400 then
           (case TOO_LARGE_test (read h object ''message'') of
              Inl e \<Rightarrow> (Inl e, h)
            | Inr matched \<Rightarrow>
                if matched then
                  map_prod (map_sum id (map_prod id payload_ref)) id
                    (requestBodyTooLarge_st now h)
                else (Inr ([], object), h))
         else (Inr ([], object), h))
      else (Inr ([], object), h))"

definition code_stage :: "addr \<Rightarrow> heap \<Rightarrow> heap" where
  "code_stage object h =
     (if typeof (read h object ''code'') = ''undefined'' then
        (if read h object ''errno'' \<in> {Number 109, Number 110, Number 111}
         then assign object ''code'' (Number 401) h
         else assign object ''code'' (Number 400) h)
      else if typeof (read h object ''code'') \<noteq> ''number'' then
        assign object ''code'' (Number 500) h
      else h)"

definition log_stage :: "addr \<Rightarrow> heap \<Rightarrow> log_event list \<times> heap" where
  "log_stage object h =
     (if typeof (read h object ''errno'') = ''undefined'' then
        ([\<lparr>level = ''error'', op = ''error.wrap'', msg = ''unexpected error'',
           err = props (h ! object)\<rparr>],
         assign object ''errno'' (Number 999) h)
      else ([], h))"

definition boom_stage :: "addr \<Rightarrow> heap \<Rightarrow> boom_ref \<times> heap" where
  "boom_stage object h =
     (let (b, h) = Boom_st (read h object ''code'') (read h object ''message'') h;
          h = merge_st (payload_ref b) object h
      in (b, h))"

text \<open>Lines 67 to 87 together, on the heap.\<close>

definition finish_st ::
  "log_event list \<Rightarrow> addr \<Rightarrow> heap \<Rightarrow> (log_event list \<times> boom_ref) \<times> heap" where
  "finish_st log1 object h =
     (let h = code_stage object h;
          (log2, h) = log_stage object h;
          (b, h) = boom_stage object h
      in ((log1 @ log2, b), h))"

text \<open>
  What a caller can rely on after a call on the heap: the objects it had are where they
  were, and when the call returns, the payload of the result is a new object.
\<close>

definition fresh_result ::
  "heap \<Rightarrow> (error + log_event list \<times> boom_ref) \<times> heap \<Rightarrow> bool" where
  "fresh_result h r =
     (take (length h) (snd r) = h \<and>
      (case fst r of
         Inl e \<Rightarrow> True
       | Inr x \<Rightarrow> length h \<le> payload_ref (snd x) \<and> payload_ref (snd x) < length (snd r)))"

text \<open>
  The result of the heap model carries the result of the value model: the same exception,
  or the same events, the same status, and a payload object with the same fields.
\<close>

definition refines ::
  "error + log_event list \<times> boom \<Rightarrow> (error + log_event list \<times> boom_ref) \<times> heap \<Rightarrow> bool" where
  "refines r rs =
     (case r of
        Inl e \<Rightarrow> fst rs = Inl e
      | Inr x \<Rightarrow>
          (case fst rs of
             Inl e \<Rightarrow> False
           | Inr y \<Rightarrow>
               fst y = fst x \<and>
               status (snd y) = response_code (snd x) \<and>
               payload_ref (snd y) < length (snd rs) \<and>
               snd rs ! payload_ref (snd y) = plain (payload (snd x))))"

text \<open>
  What lines 43 to 63 leave on the heap: the objects that were there, and a working
  object that is the one they started from or a new one.
\<close>

definition framed :: "heap \<Rightarrow> addr \<Rightarrow> (error + log_event list \<times> addr) \<times> heap \<Rightarrow> bool" where
  "framed h object r =
     (take (length h) (snd r) = h \<and>
      (\<forall>log1 object'. fst r = Inr (log1, object') \<longrightarrow>
         object' < length (snd r) \<and> (object' = object \<or> length h \<le> object')))"

text \<open>
  The same groups in the two models: the same exception, or the same events and a working
  object with the same fields.
\<close>

definition stage_refines ::
  "error + log_event list \<times> obj \<Rightarrow> (error + log_event list \<times> addr) \<times> heap \<Rightarrow> bool" where
  "stage_refines r rs =
     (case r of
        Inl e \<Rightarrow> fst rs = Inl e
      | Inr x \<Rightarrow>
          (case fst rs of
             Inl e \<Rightarrow> False
           | Inr y \<Rightarrow>
               fst y = fst x \<and> snd y < length (snd rs) \<and> snd rs ! snd y = plain (snd x)))"

section \<open>Reading objects\<close>

lemma get_fun_upd [simp]: "get (m(k \<mapsto> v)) k' = (if k' = k then v else get m k')"
  by (simp add: get_def)

lemma get_empty [simp]: "get Map.empty k = Undefined"
  by (simp add: get_def)

lemma get_map_add: "get (a ++ b) k = (case b k of None \<Rightarrow> get a k | Some v \<Rightarrow> v)"
  by (simp add: get_def map_add_def split: option.splits)

lemma get_eq_Some: "get m k = v \<Longrightarrow> v \<noteq> Undefined \<Longrightarrow> m k = Some v"
  by (simp add: get_def split: option.splits)

lemma fun_upd_get_same: "get m k \<noteq> Undefined \<Longrightarrow> m(k \<mapsto> get m k) = m"
  by (rule ext) (simp add: get_def split: option.splits)

lemma props_plain [simp]: "props (plain m) = m"
  by (simp add: plain_def)

lemma enumerable_plain [simp]: "enumerable (plain m) = (\<lambda>k. True)"
  by (simp add: plain_def)

lemma field_literal [simp]: "field (object_literal m) k = get m k"
  by (simp add: field_def)

lemma typeof_undefined [simp]: "(typeof v = ''undefined'') = (v = Undefined)"
  by (cases v) simp_all

lemma typeof_number: "(typeof v = ''number'') = (\<exists>n. v = Num n)"
  by (cases v) simp_all

lemma get_DEFAULTS:
  "get DEFAULTS k =
     (if k = ''info''
      then Str ''https://github.com/mozilla/fxa-auth-server/blob/master/docs/api.md#response-format''
      else if k = ''message'' then Str ''Unspecified error'' else Undefined)"
  by (simp add: DEFAULTS_def)

lemma ordinary_iff:
  "ordinary srcObject = (\<exists>ob. srcObject = ArgObject ob \<and> props ob ''hasOwnProperty'' = None)"
  by (cases srcObject) (simp_all add: ordinary_def)

lemma ordinary_literal [simp]: "ordinary (object_literal m) = (m ''hasOwnProperty'' = None)"
  by (simp add: ordinary_iff)

lemma hasOwnProperty_ordinary:
  "hasOwnProperty srcObject k =
     (if ordinary srcObject then Inr (own_props srcObject k \<noteq> None) else Inl TypeError)"
  by (cases srcObject) (simp_all add: ordinary_def)

lemma get_defaulted:
  "get (defaulted srcObject) k =
     (if k = ''message'' \<and> own_props srcObject ''message'' \<noteq> None
      then get (own_props srcObject) ''message''
      else (case enumerable_props srcObject k of
              None \<Rightarrow> get DEFAULTS k
            | Some v \<Rightarrow> v))"
  by (auto simp: defaulted_def Let_def applyToDefaults_def get_map_add)

lemma get_defaulted_literal:
  "get (defaulted (object_literal m)) k = (case m k of None \<Rightarrow> get DEFAULTS k | Some v \<Rightarrow> v)"
  by (simp add: get_defaulted get_def [of m] split: option.splits)

lemma defaulted_errno: "get (defaulted srcObject) ''errno'' = field srcObject ''errno''"
  by (simp add: get_defaulted get_DEFAULTS field_def get_def [of "enumerable_props srcObject"]
      split: option.splits)

lemma defaulted_code: "get (defaulted srcObject) ''code'' = field srcObject ''code''"
  by (simp add: get_defaulted get_DEFAULTS field_def get_def [of "enumerable_props srcObject"]
      split: option.splits)

lemma enumerable_own: "own_props srcObject k = None \<Longrightarrow> enumerable_props srcObject k = None"
  by (cases srcObject) simp_all

lemma defaulted_message:
  "get (defaulted srcObject) ''message'' =
     (if own_props srcObject ''message'' \<noteq> None then get (own_props srcObject) ''message''
      else Str ''Unspecified error'')"
  by (simp add: get_defaulted get_DEFAULTS enumerable_own)

lemma sanitized_code_number: "get object ''code'' = Num n \<Longrightarrow> sanitized_code object = Num n"
  by (simp add: sanitized_code_def)

lemma typeof_sanitized_code: "typeof (sanitized_code object) = ''number''"
  by (cases "get object ''code''") (simp_all add: sanitized_code_def)

lemma sanitized_code_defaulted:
  "sanitized_code (defaulted srcObject) =
     (if field srcObject ''code'' = Undefined then
        (if field srcObject ''errno'' \<in> {Number 109, Number 110, Number 111}
         then Number 401 else Number 400)
      else if typeof (field srcObject ''code'') \<noteq> ''number'' then Number 500
      else field srcObject ''code'')"
  by (simp add: sanitized_code_def defaulted_errno defaulted_code)

lemma get_boomify: "get (payload (boomify object)) k = get object k"
  by (simp add: boomify_def Let_def merge_def Boom_def get_map_add get_def [of object]
      split: option.splits)

text \<open>
  The text of a number starts with a digit, a minus sign or a capital N or I, so a message
  that is a number never matches the pattern of line 13, whatever follows its whole part.
\<close>

lemma digits_head: "digits n \<noteq> [] \<and> hd (digits n) \<in> set ''0123456789''"
proof (induction n rule: digits.induct)
  case (1 n)
  show ?case
  proof (cases "n < 10")
    case True
    then have "n \<in> {0, 1, 2, 3, 4, 5, 6, 7, 8, 9}"
      by auto
    then show ?thesis
      using True by (subst digits.simps, subst digits.simps) auto
  next
    case False
    then show ?thesis
      using 1 by (subst digits.simps, subst digits.simps) (auto simp: hd_append)
  qed
qed

lemma number_text_head:
  "number_text n \<noteq> [] \<and> hd (number_text n) \<noteq> CHR ''P''"
proof (cases n)
  case (Finite q)
  then show ?thesis
    using digits_head [of "nat \<lfloor>\<bar>q\<bar>\<rfloor>"] by (auto simp: hd_append)
qed simp_all

lemma TOO_LARGE_test_Num: "TOO_LARGE_test (Num n) = Inr False"
proof -
  have "\<not> prefix (CHR ''P'' # p) (number_text n)" for p
    using number_text_head [of n] by (cases "number_text n") auto
  then show ?thesis
    by (simp add: TOO_LARGE_test_def)
qed

lemma is_integer_sanitized_code:
  assumes "typeof (get object ''code'') \<noteq> ''number'' \<or> is_integer (get object ''code'')"
  shows "is_integer (sanitized_code object)"
  using assms by (auto simp: sanitized_code_def)

text \<open>
  A status with a fractional part is a number and not an integer.
\<close>

lemma fractional_status_not_integer: "\<not> is_integer (Number (801 / 2))"
  by code_simp

text \<open>
  For the empty object the working object is the defaults.
\<close>

lemma defaulted_empty: "defaulted (object_literal Map.empty) = DEFAULTS"
  by (simp add: defaulted_def applyToDefaults_def)


lemma to_string_nonempty_string:
  "is_nonempty_string v \<Longrightarrow> \<exists>s. to_string v = Inr s"
  by (cases v) simp_all

section \<open>The paths of wrap\<close>

subsection \<open>The groups compose to wrap\<close>

lemma wrap_stages:
  "wrap now srcObject =
     (case hasOwnProperty srcObject ''message'' of
        Inl e \<Rightarrow> Inl e
      | Inr own \<Rightarrow>
          (case intuit_errno now (defaulted srcObject) of
             Inl e \<Rightarrow> Inl e
           | Inr (log1, object) \<Rightarrow> Inr (finish log1 object)))"
proof (cases "ordinary srcObject")
  case False
  then show ?thesis
    by (subst wrap.simps) (simp add: hasOwnProperty_ordinary)
next
  case True
  then show ?thesis
    apply (subst wrap.simps)
    apply (simp only: hasOwnProperty_ordinary if_True sum.case Let_def defaulted_def
        intuit_errno_def finish_def intuit_code_def unexpected_def boomify_def split_beta
        fst_conv snd_conv)
    done
qed

lemma wrap_not_ordinary: "\<not> ordinary srcObject \<Longrightarrow> wrap now srcObject = Inl TypeError"
  by (simp add: wrap_stages hasOwnProperty_ordinary)

lemma wrap_ordinary:
  "ordinary srcObject \<Longrightarrow>
   wrap now srcObject =
     (case intuit_errno now (defaulted srcObject) of
        Inl e \<Rightarrow> Inl e
      | Inr (log1, object) \<Rightarrow> Inr (finish log1 object))"
  by (simp add: wrap_stages hasOwnProperty_ordinary)

subsection \<open>Lines 67 to 87\<close>

lemma intuit_code_eq: "intuit_code object = object(''code'' \<mapsto> sanitized_code object)"
  by (auto simp: intuit_code_def sanitized_code_def fun_upd_get_same)

lemma fst_finish:
  "fst (finish log1 object) =
     log1 @ (if get object ''errno'' = Undefined
             then [\<lparr>level = ''error'', op = ''error.wrap'', msg = ''unexpected error'',
                     err = object(''code'' \<mapsto> sanitized_code object)\<rparr>]
             else [])"
  by (simp add: finish_def Let_def split_beta unexpected_def intuit_code_eq)

lemma get_payload_finish:
  "get (payload (snd (finish log1 object))) k =
     (if k = ''errno'' \<and> get object ''errno'' = Undefined then Number 999
      else if k = ''code'' then sanitized_code object
      else get object k)"
  by (simp add: finish_def Let_def split_beta unexpected_def intuit_code_eq get_boomify)

subsection \<open>The helpers\<close>

lemma intuit_errno_skip:
  "get object ''errno'' \<noteq> Undefined \<Longrightarrow> intuit_errno now object = Inr ([], object)"
  by (simp add: intuit_errno_def)

lemma wrap_literal:
  assumes "m ''hasOwnProperty'' = None" and "get m ''errno'' \<noteq> Undefined"
  shows "wrap now (object_literal m) = Inr (finish [] (defaulted (object_literal m)))"
  using assms by (simp add: wrap_ordinary intuit_errno_skip defaulted_errno)

lemma helpers_eq:
  "invalidToken now = Inr (finish [] (defaulted (object_literal [
       ''code'' \<mapsto> Number 401,
       ''errno'' \<mapsto> Number 110,
       ''message'' \<mapsto> Str ''Invalid authentication token in request signature''])))"
  "invalidTimestamp now = Inr (finish [] (defaulted (object_literal [
       ''code'' \<mapsto> Number 401,
       ''errno'' \<mapsto> Number 111,
       ''message'' \<mapsto> Str ''Invalid timestamp in request signature'',
       ''serverTime'' \<mapsto> Number (of_int (now div 1000))])))"
  "invalidNonce now = Inr (finish [] (defaulted (object_literal [
       ''code'' \<mapsto> Number 401,
       ''errno'' \<mapsto> Number 115,
       ''message'' \<mapsto> Str ''Invalid nonce in request signature''])))"
  "invalidSignature now message = Inr (finish [] (defaulted (object_literal [
       ''code'' \<mapsto> Number 401,
       ''errno'' \<mapsto> Number 109,
       ''message'' \<mapsto> (if truthy message then message else Str ''Invalid request signature'')])))"
  "requestBodyTooLarge now = Inr (finish [] (defaulted (object_literal [
       ''code'' \<mapsto> Number 413,
       ''errno'' \<mapsto> Number 113,
       ''message'' \<mapsto> Str ''Request body too large''])))"
  by (simp_all add: invalidToken.simps invalidTimestamp.simps invalidNonce.simps
      invalidSignature.simps requestBodyTooLarge.simps wrap_literal)

lemma helper_object: "map_prod id payload r = (fst r, payload (snd r))"
  by (cases r) simp

subsection \<open>An argument with an errno\<close>

lemma wire_has_errno:
  assumes "ordinary srcObject" and "field srcObject ''errno'' \<noteq> Undefined"
  shows "returns now srcObject"
    and "get (wire now srcObject) k =
           (if k = ''code'' then sanitized_code (defaulted srcObject)
            else get (defaulted srcObject) k)"
    and "logged now srcObject = []"
  using assms
  by (simp_all add: returns_def wire_def logged_def wrap_ordinary intuit_errno_skip
      defaulted_errno get_payload_finish fst_finish)

subsection \<open>An argument with no errno\<close>

lemma wire_401:
  assumes "ordinary srcObject"
    and "field srcObject ''errno'' = Undefined" and "field srcObject ''code'' = Number 401"
  shows "returns now srcObject"
    and "get (wire now srcObject) ''code'' = Number 401"
    and "get (wire now srcObject) ''errno'' =
       (if get (defaulted srcObject) ''message'' \<in>
             {Str ''Unknown credentials'', Str ''Invalid credentials''} then Number 110
        else if get (defaulted srcObject) ''message'' = Str ''Stale timestamp'' then Number 111
        else if get (defaulted srcObject) ''message'' = Str ''Invalid nonce'' then Number 115
        else Number 109)"
    and "get (wire now srcObject) ''message'' =
       (if get (defaulted srcObject) ''message'' \<in>
             {Str ''Unknown credentials'', Str ''Invalid credentials''}
          then Str ''Invalid authentication token in request signature''
        else if get (defaulted srcObject) ''message'' = Str ''Stale timestamp''
          then Str ''Invalid timestamp in request signature''
        else if get (defaulted srcObject) ''message'' = Str ''Invalid nonce''
          then Str ''Invalid nonce in request signature''
        else if truthy (get (defaulted srcObject) ''message'')
          then get (defaulted srcObject) ''message''
        else Str ''Invalid request signature'')"
    and "logged now srcObject = []"
  using assms
  by (simp_all add: returns_def wire_def logged_def wrap_ordinary intuit_errno_def
      defaulted_errno defaulted_code helpers_eq helper_object get_payload_finish fst_finish
      sanitized_code_def get_defaulted_literal)

lemma wire_401_server_time:
  assumes "ordinary srcObject"
    and "field srcObject ''errno'' = Undefined" and "field srcObject ''code'' = Number 401"
    and "get (defaulted srcObject) ''message'' = Str ''Stale timestamp''"
  shows "get (wire now srcObject) ''serverTime'' = Number (of_int (now div 1000))"
  using assms
  by (simp add: returns_def wire_def logged_def wrap_ordinary intuit_errno_def
      defaulted_errno defaulted_code helpers_eq helper_object get_payload_finish fst_finish
      sanitized_code_def get_defaulted_literal)

lemma wire_413:
  assumes "ordinary srcObject"
    and "field srcObject ''errno'' = Undefined" and "field srcObject ''code'' = Number 400"
    and "TOO_LARGE_test (get (defaulted srcObject) ''message'') = Inr True"
  shows "returns now srcObject"
    and "get (wire now srcObject) ''code'' = Number 413"
    and "get (wire now srcObject) ''errno'' = Number 113"
    and "get (wire now srcObject) ''message'' = Str ''Request body too large''"
    and "logged now srcObject = []"
  using assms
  by (simp_all add: returns_def wire_def logged_def wrap_ordinary intuit_errno_def
      defaulted_errno defaulted_code helpers_eq helper_object get_payload_finish fst_finish
      sanitized_code_def get_defaulted_literal)

lemma wrap_no_text:
  assumes "ordinary srcObject"
    and "field srcObject ''errno'' = Undefined" and "field srcObject ''code'' = Number 400"
    and "to_string (get (defaulted srcObject) ''message'') = Inl e"
  shows "wrap now srcObject = Inl e"
  using assms
  by (simp add: wrap_ordinary intuit_errno_def defaulted_errno defaulted_code TOO_LARGE_test_def)

lemma wire_999:
  assumes "unclassified srcObject"
  shows "returns now srcObject"
    and "get (wire now srcObject) k =
     (if k = ''errno'' then Number 999
      else if k = ''code'' then sanitized_code (defaulted srcObject)
      else get (defaulted srcObject) k)"
    and "logged now srcObject =
     [\<lparr>level = ''error'', op = ''error.wrap'', msg = ''unexpected error'',
       err = (defaulted srcObject)(''code'' \<mapsto> sanitized_code (defaulted srcObject))\<rparr>]"
  using assms
  by (auto simp: unclassified_def returns_def wire_def logged_def wrap_ordinary intuit_errno_def
      defaulted_errno defaulted_code get_payload_finish fst_finish)

lemma unclassified_no_errno: "unclassified srcObject \<Longrightarrow> field srcObject ''errno'' = Undefined"
  by (simp add: unclassified_def)

lemma unclassified_ordinary: "unclassified srcObject \<Longrightarrow> ordinary srcObject"
  by (simp add: unclassified_def)

lemma wrap_paths [case_names no_method has_errno code_401 no_text too_large unclassified]:
  obtains "\<not> ordinary srcObject"
  | "ordinary srcObject" "field srcObject ''errno'' \<noteq> Undefined"
  | "ordinary srcObject" "field srcObject ''errno'' = Undefined"
    "field srcObject ''code'' = Number 401"
  | "ordinary srcObject" "field srcObject ''errno'' = Undefined"
    "field srcObject ''code'' = Number 400"
    "to_string (get (defaulted srcObject) ''message'') = Inl TypeError"
  | "ordinary srcObject" "field srcObject ''errno'' = Undefined"
    "field srcObject ''code'' = Number 400"
    "TOO_LARGE_test (get (defaulted srcObject) ''message'') = Inr True"
  | "unclassified srcObject"
proof (cases "to_string (get (defaulted srcObject) ''message'')")
  case (Inl e)
  then have "to_string (get (defaulted srcObject) ''message'') = Inl TypeError"
    by (cases e) simp
  then show ?thesis
    using that by (auto simp: unclassified_def TOO_LARGE_test_def)
next
  case (Inr s)
  then show ?thesis
    using that by (auto simp: unclassified_def TOO_LARGE_test_def)
qed

lemma wrap_throws:
  "wrap now srcObject = Inl TypeError \<longleftrightarrow>
     \<not> ordinary srcObject \<or>
     field srcObject ''errno'' = Undefined \<and> field srcObject ''code'' = Number 400 \<and>
     to_string (get (defaulted srcObject) ''message'') = Inl TypeError"
proof (cases srcObject rule: wrap_paths)
  case no_method
  then show ?thesis by (simp add: wrap_not_ordinary)
next
  case has_errno
  then show ?thesis
    using wire_has_errno(1) [of srcObject now] by (auto simp: returns_def)
next
  case code_401
  then show ?thesis
    using wire_401(1) [of srcObject now] by (auto simp: returns_def)
next
  case no_text
  then show ?thesis by (simp add: wrap_no_text)
next
  case too_large
  then show ?thesis
    using wire_413(1) [of srcObject now] by (auto simp: returns_def TOO_LARGE_test_def)
next
  case unclassified
  then show ?thesis
    using wire_999(1) [of srcObject now]
    by (auto simp: returns_def unclassified_def TOO_LARGE_test_def)
qed

text \<open>The only exception is the \<^verbatim>\<open>TypeError\<close> of lines 38 and 59.\<close>

lemma returns_iff:
  "returns now srcObject \<longleftrightarrow> wrap now srcObject \<noteq> Inl TypeError"
proof (cases "wrap now srcObject")
  case (Inl e)
  then show ?thesis by (cases e) (simp add: returns_def)
next
  case (Inr r)
  then show ?thesis by (simp add: returns_def)
qed

section \<open>The heap model\<close>

subsection \<open>The groups compose to wrap\<close>

lemma wrap_st_groups:
  "wrap_st now srcObject h =
     (let (object, h) = applyToDefaults_st DEFAULTS_ref srcObject h in
      case hasOwnProperty (ArgObject (h ! srcObject)) ''message'' of
        Inl e \<Rightarrow> (Inl e, h)
      | Inr own \<Rightarrow>
          (let h = (if own
                    then assign object ''message'' (read h srcObject ''message'') h
                    else h) in
           case errno_stage now object h of
             (Inl e, h) \<Rightarrow> (Inl e, h)
           | (Inr (log1, object), h) \<Rightarrow> map_prod Inr id (finish_st log1 object h)))"
  apply (subst wrap_st.simps)
  apply (simp only: errno_stage_def finish_st_def code_stage_def log_stage_def boom_stage_def
      Let_def split_beta fst_conv snd_conv map_prod_simp id_apply)
  done

lemma wrap_st_stages:
  "wrap_st now srcObject h =
     (case defaults_stage srcObject h of
        (Inl e, h) \<Rightarrow> (Inl e, h)
      | (Inr object, h) \<Rightarrow>
          (case errno_stage now object h of
             (Inl e, h) \<Rightarrow> (Inl e, h)
           | (Inr (log1, object), h) \<Rightarrow> map_prod Inr id (finish_st log1 object h)))"
  by (simp add: wrap_st_groups defaults_stage_def Let_def split_beta split: sum.splits)

subsection \<open>Every write goes to a new object\<close>

lemma length_assign [simp]: "length (assign a k v h) = length h"
  by (simp add: assign_def)

lemma length_merge_st [simp]: "length (merge_st t s h) = length h"
  by (simp add: merge_st_def)

lemma take_assign [simp]: "n \<le> a \<Longrightarrow> take n (assign a k v h) = take n h"
  by (simp add: assign_def)

lemma take_merge_st [simp]: "n \<le> t \<Longrightarrow> take n (merge_st t s h) = take n h"
  by (simp add: merge_st_def)

lemma defaults_stage_fresh:
  "length (snd (defaults_stage srcObject h)) = Suc (length h)"
  "take (length h) (snd (defaults_stage srcObject h)) = h"
  "fst (defaults_stage srcObject h) = Inr object \<Longrightarrow> object = length h"
  by (auto simp: defaults_stage_def applyToDefaults_st_def alloc_def Let_def split: sum.splits)

lemma code_stage_frame [simp]:
  "length (code_stage object h) = length h"
  "n \<le> object \<Longrightarrow> take n (code_stage object h) = take n h"
  by (simp_all add: code_stage_def)

lemma log_stage_frame [simp]:
  "length (snd (log_stage object h)) = length h"
  "n \<le> object \<Longrightarrow> take n (snd (log_stage object h)) = take n h"
  by (simp_all add: log_stage_def)

lemma boom_stage_fresh [simp]:
  "payload_ref (fst (boom_stage object h)) = length h"
  "length (snd (boom_stage object h)) = Suc (length h)"
  "n \<le> length h \<Longrightarrow> take n (snd (boom_stage object h)) = take n h"
  by (simp_all add: boom_stage_def Boom_st_def alloc_def Let_def)

lemma finish_st_fresh:
  "payload_ref (snd (fst (finish_st log1 object h))) = length h"
  "length (snd (finish_st log1 object h)) = Suc (length h)"
  "n \<le> object \<Longrightarrow> n \<le> length h \<Longrightarrow> take n (snd (finish_st log1 object h)) = take n h"
  by (simp_all add: finish_st_def Let_def split_beta)

lemma errno_stage_skip:
  "read h object ''errno'' \<noteq> Undefined \<Longrightarrow> errno_stage now object h = (Inr ([], object), h)"
  by (simp add: errno_stage_def)

lemma read_defaults_stage_errno:
  "read (snd (defaults_stage srcObject h)) (length h) ''errno'' =
     get (applyToDefaults (props (h ! DEFAULTS_ref)) (ArgObject (h ! srcObject))) ''errno''"
  by (simp add: defaults_stage_def applyToDefaults_st_def alloc_def Let_def read_def assign_def
      plain_def split: sum.splits)

lemma wrap_st_errno_fresh:
  assumes "get (applyToDefaults (props (h ! DEFAULTS_ref)) (ArgObject (h ! srcObject))) ''errno''
             \<noteq> Undefined"
  shows "fresh_result h (wrap_st now srcObject h)"
proof (cases "fst (defaults_stage srcObject h)")
  case (Inl e)
  then show ?thesis
    by (simp add: wrap_st_stages split_beta fresh_result_def defaults_stage_fresh)
next
  case (Inr object)
  then have o: "object = length h"
    by (rule defaults_stage_fresh)
  show ?thesis
    using assms Inr o
    by (simp add: wrap_st_stages split_beta errno_stage_skip read_defaults_stage_errno
        fresh_result_def defaults_stage_fresh finish_st_fresh)
qed

lemma fresh_result_alloc:
  assumes "fresh_result (snd (alloc fs h)) r"
  shows "fresh_result h r"
proof -
  have "take (length h) (take (Suc (length h)) (snd r)) = h"
    using assms by (simp add: fresh_result_def alloc_def)
  then show ?thesis
    using assms by (auto simp: fresh_result_def alloc_def min_def split: sum.splits)
qed

lemma literal_errno:
  "fs ''errno'' = Some v \<Longrightarrow> v \<noteq> Undefined \<Longrightarrow>
   fresh_result h (wrap_st now (fst (alloc fs h)) (snd (alloc fs h)))"
  by (rule fresh_result_alloc [of fs], rule wrap_st_errno_fresh)
    (simp add: alloc_def applyToDefaults_def get_map_add)

lemma helpers_fresh:
  "fresh_result h (invalidToken_st now h)"
  "fresh_result h (invalidTimestamp_st now h)"
  "fresh_result h (invalidNonce_st now h)"
  "fresh_result h (invalidSignature_st now message h)"
  "fresh_result h (requestBodyTooLarge_st now h)"
  by (simp_all add: invalidToken_st.simps invalidTimestamp_st.simps invalidNonce_st.simps
      invalidSignature_st.simps requestBodyTooLarge_st.simps split_beta literal_errno)

lemma fresh_result_payload:
  assumes "fresh_result h r"
  shows "take (length h) (snd (map_prod (map_sum id (map_prod id payload_ref)) id r)) = h"
    and "fst (map_prod (map_sum id (map_prod id payload_ref)) id r) = Inr (log1, object) \<Longrightarrow>
         object < length (snd (map_prod (map_sum id (map_prod id payload_ref)) id r)) \<and>
         length h \<le> object"
proof -
  obtain x h' where r: "r = (x, h')"
    by (cases r)
  show "take (length h) (snd (map_prod (map_sum id (map_prod id payload_ref)) id r)) = h"
    using assms by (simp add: r fresh_result_def)
  show "object < length (snd (map_prod (map_sum id (map_prod id payload_ref)) id r)) \<and>
         length h \<le> object"
    if "fst (map_prod (map_sum id (map_prod id payload_ref)) id r) = Inr (log1, object)"
    using assms that by (cases x) (auto simp: r fresh_result_def)
qed

lemma framed_helper:
  "fresh_result h r \<Longrightarrow> framed h object (map_prod (map_sum id (map_prod id payload_ref)) id r)"
  using fresh_result_payload [of h r] by (simp add: framed_def)

lemma framed_same: "object < length h \<Longrightarrow> framed h object (Inr ([], object), h)"
  by (simp add: framed_def)

lemma framed_throw: "framed h object (Inl e, h)"
  by (simp add: framed_def)

lemma errno_stage_framed:
  assumes "object < length h"
  shows "framed h object (errno_stage now object h)"
  unfolding errno_stage_def
  by (intro framed_helper helpers_fresh framed_same framed_throw assms
      if_split [where P = "framed h object", THEN iffD2] conjI impI
      sum.split [where P = "framed h object", THEN iffD2] allI)

lemma errno_stage_fresh:
  assumes "object < length h"
  shows "take (length h) (snd (errno_stage now object h)) = h"
    and "fst (errno_stage now object h) = Inr (log1, object') \<Longrightarrow>
         object' < length (snd (errno_stage now object h)) \<and>
         (object' = object \<or> length h \<le> object')"
  using errno_stage_framed [OF assms, of now] by (simp_all add: framed_def)

lemma wrap_st_prefix: "take (length h) (snd (wrap_st now srcObject h)) = h"
proof (cases "fst (defaults_stage srcObject h)")
  case (Inl e)
  then show ?thesis
    by (simp add: wrap_st_stages split_beta defaults_stage_fresh)
next
  case d: (Inr object)
  define h1 where "h1 = snd (defaults_stage srcObject h)"
  have o: "object = length h"
    using d by (rule defaults_stage_fresh)
  have h1: "length h1 = Suc (length h)" "take (length h) h1 = h"
    by (simp_all add: h1_def defaults_stage_fresh)
  have e1: "take (length h1) (snd (errno_stage now object h1)) = h1"
    using errno_stage_fresh(1) [of object h1 now] o h1 by simp
  have "take (length h) (take (length h1) (snd (errno_stage now object h1))) = h"
    using e1 h1(2) by simp
  then have e: "take (length h) (snd (errno_stage now object h1)) = h"
    using h1(1) by (simp add: min_def)
  show ?thesis
  proof (cases "fst (errno_stage now object h1)")
    case (Inl e')
    then show ?thesis
      using d e by (simp add: wrap_st_stages split_beta h1_def)
  next
    case (Inr p)
    obtain log1 object' where p: "p = (log1, object')"
      by (cases p)
    have o': "object' < length (snd (errno_stage now object h1))"
      "object' = object \<or> length h1 \<le> object'"
      using errno_stage_fresh(2) [of object h1 now log1 object'] Inr p o h1 by simp_all
    have "length h \<le> object'"
      using o' o h1 by auto
    then have "take (length h) (snd (finish_st log1 object' (snd (errno_stage now object h1)))) =
        take (length h) (snd (errno_stage now object h1))"
      using o'(1) by (simp add: finish_st_fresh)
    then show ?thesis
      using d Inr p e by (simp add: wrap_st_stages split_beta h1_def)
  qed
qed

lemma wrap_st_old:
  assumes "a < length h"
  shows "a < length (snd (wrap_st now srcObject h))"
    and "snd (wrap_st now srcObject h) ! a = h ! a"
proof -
  have "length (take (length h) (snd (wrap_st now srcObject h))) = length h"
    by (simp only: wrap_st_prefix)
  then show "a < length (snd (wrap_st now srcObject h))"
    using assms by simp
  show "snd (wrap_st now srcObject h) ! a = h ! a"
    using assms nth_take [of a "length h" "snd (wrap_st now srcObject h)"]
    by (simp only: wrap_st_prefix)
qed

subsection \<open>The heap model computes what the value model computes\<close>

lemma plain_eq: "\<lparr>props = fs, enumerable = \<lambda>k. True\<rparr> = plain fs"
  by (simp add: plain_def)

lemma assign_plain:
  assumes "a < length h" and "h ! a = plain fs"
  shows "assign a k v h = h[a := plain (fs(k \<mapsto> v))]"
proof -
  have "(\<lambda>k'. True)(k := True) = (\<lambda>k'::string. True)"
    by (rule ext) simp
  then show ?thesis
    using assms by (simp add: assign_def plain_eq)
qed

lemma read_plain: "h ! a = plain fs \<Longrightarrow> read h a k = get fs k"
  by (simp add: read_def)

lemma update_plain_same: "a < length h \<Longrightarrow> h ! a = plain fs \<Longrightarrow> h[a := plain fs] = h"
  by (simp add: list_update_same_conv)

lemma defaults_stage_throws:
  assumes "srcObject < length h" and "\<not> ordinary (ArgObject (h ! srcObject))"
  shows "fst (defaults_stage srcObject h) = Inl TypeError"
  using assms
  by (simp add: defaults_stage_def applyToDefaults_st_def alloc_def Let_def nth_append
      hasOwnProperty_ordinary)

lemma defaults_stage_plain:
  assumes "srcObject < length h" and "props (h ! DEFAULTS_ref) = DEFAULTS"
    and "ordinary (ArgObject (h ! srcObject))"
  shows "fst (defaults_stage srcObject h) = Inr (length h)"
    and "snd (defaults_stage srcObject h) ! length h =
           plain (defaulted (ArgObject (h ! srcObject)))"
  using assms
  by (simp_all add: defaults_stage_def applyToDefaults_st_def alloc_def Let_def defaulted_def
      assign_plain [where fs = "applyToDefaults DEFAULTS (ArgObject (h ! srcObject))"]
      nth_append read_def hasOwnProperty_ordinary get_def)

lemma defaults_stage_old:
  "a < length h \<Longrightarrow> snd (defaults_stage srcObject h) ! a = h ! a"
  using defaults_stage_fresh(2) [where srcObject = srcObject and h = h]
    nth_take [of a "length h" "snd (defaults_stage srcObject h)"] by simp

lemma code_stage_plain:
  assumes "object < length h" and "h ! object = plain fs"
  shows "code_stage object h = h[object := plain (intuit_code fs)]"
  using assms update_plain_same [OF assms]
  by (simp add: code_stage_def intuit_code_def read_plain assign_plain)

lemma log_stage_plain:
  assumes "object < length h" and "h ! object = plain fs"
  shows "log_stage object h = (fst (unexpected fs), h[object := plain (snd (unexpected fs))])"
  using assms update_plain_same [OF assms]
  by (simp add: log_stage_def unexpected_def read_plain assign_plain)

lemma boom_stage_plain:
  assumes "object < length h" and "h ! object = plain fs"
  shows "boom_stage object h =
     (\<lparr>status = response_code (boomify fs), payload_ref = length h\<rparr>,
      h @ [plain (payload (boomify fs))])"
  using assms
  by (simp add: boom_stage_def Boom_st_def alloc_def Let_def boomify_def Boom_def read_plain
      merge_st_def nth_append plain_eq)

lemma later_stages_refine:
  assumes "object < length h" and "h ! object = plain fs"
  shows "refines (Inr (finish log1 fs)) (map_prod Inr id (finish_st log1 object h))"
  using assms
  by (simp add: finish_def finish_st_def code_stage_plain log_stage_plain boom_stage_plain
      Let_def split_beta refines_def nth_append)

lemma wrap_st_refines_errno:
  assumes "srcObject < length h" and "props (h ! DEFAULTS_ref) = DEFAULTS"
    and "field (ArgObject (h ! srcObject)) ''errno'' \<noteq> Undefined"
  shows "refines (wrap now (ArgObject (h ! srcObject))) (wrap_st now srcObject h)"
proof (cases "ordinary (ArgObject (h ! srcObject))")
  case False
  then show ?thesis
    using defaults_stage_throws [OF assms(1) False]
    by (simp add: wrap_not_ordinary wrap_st_stages split_beta refines_def)
next
  case True
  define h1 where "h1 = snd (defaults_stage srcObject h)"
  have d: "fst (defaults_stage srcObject h) = Inr (length h)"
    "h1 ! length h = plain (defaulted (ArgObject (h ! srcObject)))"
    "length h < length h1"
    using defaults_stage_plain [OF assms(1,2) True]
    by (simp_all add: h1_def defaults_stage_fresh)
  have e: "errno_stage now (length h) h1 = (Inr ([], length h), h1)"
    using assms(3) d(2) by (simp add: errno_stage_skip read_plain defaulted_errno)
  have w: "wrap now (ArgObject (h ! srcObject)) =
      Inr (finish [] (defaulted (ArgObject (h ! srcObject))))"
    using True assms(3) by (simp add: wrap_ordinary intuit_errno_skip defaulted_errno)
  have ws: "wrap_st now srcObject h = map_prod Inr id (finish_st [] (length h) h1)"
    using d(1) e by (simp add: wrap_st_stages split_beta h1_def)
  show ?thesis
    unfolding w ws using d(3) d(2) by (rule later_stages_refine)
qed

lemma literal_refines:
  assumes "DEFAULTS_ref < length h" and "props (h ! DEFAULTS_ref) = DEFAULTS"
    and "get fs ''errno'' \<noteq> Undefined"
  shows "refines (wrap now (object_literal fs))
           (wrap_st now (fst (alloc fs h)) (snd (alloc fs h)))"
proof -
  have "refines (wrap now (ArgObject ((h @ [plain fs]) ! length h)))
          (wrap_st now (length h) (h @ [plain fs]))"
    using assms by (intro wrap_st_refines_errno) (simp_all add: nth_append)
  then show ?thesis
    by (simp add: alloc_def)
qed

lemma helpers_refine:
  assumes "DEFAULTS_ref < length h" and "props (h ! DEFAULTS_ref) = DEFAULTS"
  shows "refines (invalidToken now) (invalidToken_st now h)"
    and "refines (invalidTimestamp now) (invalidTimestamp_st now h)"
    and "refines (invalidNonce now) (invalidNonce_st now h)"
    and "refines (invalidSignature now message) (invalidSignature_st now message h)"
    and "refines (requestBodyTooLarge now) (requestBodyTooLarge_st now h)"
  using assms
  by (simp_all add: invalidToken_st.simps invalidTimestamp_st.simps invalidNonce_st.simps
      invalidSignature_st.simps requestBodyTooLarge_st.simps invalidToken.simps
      invalidTimestamp.simps invalidNonce.simps invalidSignature.simps requestBodyTooLarge.simps
      split_beta literal_refines)

lemma stage_refines_helper:
  assumes "refines r rs"
  shows "stage_refines (map_sum id (map_prod id payload) r)
           (map_prod (map_sum id (map_prod id payload_ref)) id rs)"
proof -
  obtain y h' where rs: "rs = (y, h')"
    by (cases rs)
  show ?thesis
    using assms by (cases r; cases y) (auto simp: rs refines_def stage_refines_def)
qed

lemma stage_refines_same:
  "object < length h \<Longrightarrow> h ! object = plain fs \<Longrightarrow>
   stage_refines (Inr ([], fs)) (Inr ([], object), h)"
  by (simp add: stage_refines_def)

lemma stage_refines_throw: "stage_refines (Inl e) (Inl e, h)"
  by (simp add: stage_refines_def)

lemma errno_stage_refines:
  assumes "object < length h" and "h ! object = plain fs"
    and "DEFAULTS_ref < length h" and "props (h ! DEFAULTS_ref) = DEFAULTS"
  shows "stage_refines (intuit_errno now fs) (errno_stage now object h)"
proof -
  note h = helpers_refine [OF assms(3,4), THEN stage_refines_helper]
  note s = stage_refines_same [OF assms(1,2)]
  show ?thesis
  proof (cases "TOO_LARGE_test (get fs ''message'')")
    case (Inl e)
    then show ?thesis
      using h [of now] h(4) [of now "get fs ''message''"] s
      by (simp add: errno_stage_def intuit_errno_def read_plain [OF assms(2)]
          stage_refines_throw)
  next
    case (Inr matched)
    then show ?thesis
      using h [of now] h(4) [of now "get fs ''message''"] s
      by (simp add: errno_stage_def intuit_errno_def read_plain [OF assms(2)])
  qed
qed

theorem wrap_st_refines:
  assumes "srcObject < length h" and "DEFAULTS_ref < length h"
    and "props (h ! DEFAULTS_ref) = DEFAULTS"
  shows "refines (wrap now (ArgObject (h ! srcObject))) (wrap_st now srcObject h)"
proof (cases "ordinary (ArgObject (h ! srcObject))")
  case False
  then show ?thesis
    using defaults_stage_throws [OF assms(1) False]
    by (simp add: wrap_not_ordinary wrap_st_stages split_beta refines_def)
next
  case True
  define h1 where "h1 = snd (defaults_stage srcObject h)"
  define fs where "fs = defaulted (ArgObject (h ! srcObject))"
  have d: "fst (defaults_stage srcObject h) = Inr (length h)"
    "h1 ! length h = plain fs" "length h < length h1"
    "DEFAULTS_ref < length h1" "props (h1 ! DEFAULTS_ref) = DEFAULTS"
    using defaults_stage_plain [OF assms(1,3) True] assms(2,3)
    by (simp_all add: h1_def fs_def defaults_stage_fresh defaults_stage_old)
  have e: "stage_refines (intuit_errno now fs) (errno_stage now (length h) h1)"
    using d by (intro errno_stage_refines)
  show ?thesis
  proof (cases "intuit_errno now fs")
    case (Inl e')
    then have "fst (errno_stage now (length h) h1) = Inl e'"
      using e by (simp add: stage_refines_def)
    then show ?thesis
      using True d(1) Inl
      by (simp add: wrap_ordinary wrap_st_stages split_beta refines_def h1_def fs_def)
  next
    case (Inr x)
    obtain y h2 where r: "errno_stage now (length h) h1 = (Inr y, h2)"
      "fst y = fst x" "snd y < length h2" "h2 ! snd y = plain (snd x)"
      using e Inr
      by (cases "errno_stage now (length h) h1"; cases "fst (errno_stage now (length h) h1)")
        (auto simp: stage_refines_def)
    have w: "wrap now (ArgObject (h ! srcObject)) = Inr (finish (fst x) (snd x))"
      using True Inr by (simp add: wrap_ordinary split_beta fs_def)
    have ws: "wrap_st now srcObject h = map_prod Inr id (finish_st (fst x) (snd y) h2)"
      using d(1) r(1,2) by (simp add: wrap_st_stages split_beta h1_def)
    show ?thesis
      unfolding w ws using r(3,4) by (rule later_stages_refine)
  qed
qed

text \<open>
  A call leaves every object that was there where and as it was, so a later call on any
  of them, whatever ran in between, computes what \<^verbatim>\<open>wrap\<close> computes from that object and
  the same defaults.
\<close>

theorem next_call_unaffected:
  assumes "other < length h" and "DEFAULTS_ref < length h"
    and "props (h ! DEFAULTS_ref) = DEFAULTS"
  shows "refines (wrap now' (ArgObject (h ! other)))
           (wrap_st now' other (snd (wrap_st now srcObject h)))"
  using wrap_st_refines [of other "snd (wrap_st now srcObject h)" now'] assms
  by (simp add: wrap_st_old)

section \<open>The claims\<close>

text \<open>
  Claim C1, as the code has it. \<^verbatim>\<open>wrap\<close> does not return for every argument. It
  returns exactly when the call of line 38 returns (the argument is an object with no own
  property named \<^verbatim>\<open>hasOwnProperty\<close>) and the test of line 59, when it is reached (no
  \<^verbatim>\<open>errno\<close>, \<^verbatim>\<open>code\<close> 400), can convert the message to a string; otherwise it throws
  a \<^verbatim>\<open>TypeError\<close>. When it returns, the \<^verbatim>\<open>errno\<close> of the result is not
  \<^verbatim>\<open>undefined\<close> and its \<^verbatim>\<open>code\<close> is a number. The \<^verbatim>\<open>errno\<close> is an integer when the
  input has no \<^verbatim>\<open>errno\<close> or an integer one, and the \<^verbatim>\<open>code\<close> is an integer when the
  input's \<^verbatim>\<open>code\<close> is absent, not a number, or an integer. An input that reaches line 79
  with no \<^verbatim>\<open>errno\<close> gets \<^verbatim>\<open>errno\<close> 999, with \<^verbatim>\<open>code\<close> 400 when it carries no
  \<^verbatim>\<open>code\<close>.
\<close>

theorem wrap_result_shape:
  "(returns now srcObject \<longleftrightarrow>
      ordinary srcObject \<and>
      \<not> (field srcObject ''errno'' = Undefined \<and> field srcObject ''code'' = Number 400 \<and>
         to_string (get (defaulted srcObject) ''message'') = Inl TypeError)) \<and>
   (\<not> returns now srcObject \<longrightarrow> wrap now srcObject = Inl TypeError) \<and>
   (returns now srcObject \<longrightarrow>
      get (wire now srcObject) ''errno'' \<noteq> Undefined \<and>
      typeof (get (wire now srcObject) ''code'') = ''number'' \<and>
      (field srcObject ''errno'' = Undefined \<or> is_integer (field srcObject ''errno'') \<longrightarrow>
         is_integer (get (wire now srcObject) ''errno'')) \<and>
      (typeof (field srcObject ''code'') \<noteq> ''number'' \<or> is_integer (field srcObject ''code'') \<longrightarrow>
         is_integer (get (wire now srcObject) ''code'')) \<and>
      (unclassified srcObject \<longrightarrow>
         get (wire now srcObject) ''errno'' = Number 999 \<and>
         (field srcObject ''code'' = Undefined \<longrightarrow>
            get (wire now srcObject) ''code'' = Number 400)))"
proof -
  have r: "returns now srcObject \<longleftrightarrow>
      ordinary srcObject \<and>
      \<not> (field srcObject ''errno'' = Undefined \<and> field srcObject ''code'' = Number 400 \<and>
         to_string (get (defaulted srcObject) ''message'') = Inl TypeError)"
    by (simp add: returns_iff wrap_throws)
  have t: "\<not> returns now srcObject \<longrightarrow> wrap now srcObject = Inl TypeError"
    by (simp add: returns_iff)
  have v: "returns now srcObject \<longrightarrow>
      get (wire now srcObject) ''errno'' \<noteq> Undefined \<and>
      typeof (get (wire now srcObject) ''code'') = ''number'' \<and>
      (field srcObject ''errno'' = Undefined \<or> is_integer (field srcObject ''errno'') \<longrightarrow>
         is_integer (get (wire now srcObject) ''errno'')) \<and>
      (typeof (field srcObject ''code'') \<noteq> ''number'' \<or> is_integer (field srcObject ''code'') \<longrightarrow>
         is_integer (get (wire now srcObject) ''code'')) \<and>
      (unclassified srcObject \<longrightarrow>
         get (wire now srcObject) ''errno'' = Number 999 \<and>
         (field srcObject ''code'' = Undefined \<longrightarrow>
            get (wire now srcObject) ''code'' = Number 400))"
  proof (cases srcObject rule: wrap_paths)
    case no_method
    then show ?thesis by (simp add: r)
  next
    case has_errno
    then show ?thesis
      by (simp add: wire_has_errno defaulted_errno defaulted_code typeof_sanitized_code
          is_integer_sanitized_code unclassified_def)
  next
    case code_401
    then show ?thesis
      by (simp add: wire_401 unclassified_def)
  next
    case no_text
    then show ?thesis by (simp add: r)
  next
    case too_large
    then show ?thesis
      by (simp add: wire_413 unclassified_def)
  next
    case unclassified
    then show ?thesis
      by (simp add: wire_999 defaulted_code typeof_sanitized_code is_integer_sanitized_code
          unclassified_no_errno sanitized_code_defaulted)
  qed
  show ?thesis
    using r t v by blast
qed

text \<open>
  \<^verbatim>\<open>wrap({})\<close> returns 999 and 400; \<^verbatim>\<open>wrap({errno: 105, code: "x"})\<close> returns, with
  integers in both fields; \<^verbatim>\<open>wrap({code: 400, message: "Payload too big"})\<close> returns 999;
  \<^verbatim>\<open>wrap({code: 400, message: ["Payload", {toString: null}]})\<close> does not return.
\<close>

theorem wrap_result_shape_witness:
  "returns 0 (object_literal Map.empty) \<and>
   unclassified (object_literal Map.empty) \<and>
   get (wire 0 (object_literal Map.empty)) ''errno'' = Number 999 \<and>
   get (wire 0 (object_literal Map.empty)) ''code'' = Number 400 \<and>
   returns 0 (object_literal [''errno'' \<mapsto> Number 105, ''code'' \<mapsto> Str ''x'']) \<and>
   is_integer (get (wire 0 (object_literal [''errno'' \<mapsto> Number 105, ''code'' \<mapsto> Str ''x'']))
     ''errno'') \<and>
   is_integer (get (wire 0 (object_literal [''errno'' \<mapsto> Number 105, ''code'' \<mapsto> Str ''x'']))
     ''code'') \<and>
   unclassified (object_literal [''code'' \<mapsto> Number 400, ''message'' \<mapsto> Str ''Payload too big'']) \<and>
   returns 0 (object_literal [''code'' \<mapsto> Number 400, ''message'' \<mapsto> Str ''Payload too big'']) \<and>
   get (wire 0 (object_literal [''code'' \<mapsto> Number 400, ''message'' \<mapsto> Str ''Payload too big'']))
     ''errno'' = Number 999 \<and>
   \<not> returns 0 (object_literal [''code'' \<mapsto> Number 400,
     ''message'' \<mapsto> Arr [Str ''Payload'', Obj [(''toString'', Null)]]])"
proof -
  have u: "unclassified (object_literal Map.empty)"
    by (simp add: unclassified_def)
  have v: "unclassified (object_literal [''code'' \<mapsto> Number 400,
      ''message'' \<mapsto> Str ''Payload too big''])"
    by (simp add: unclassified_def get_defaulted_literal TOO_LARGE_test_def)
  show ?thesis
    using u v wrap_result_shape [of 0 "object_literal Map.empty"]
      wrap_result_shape [of 0 "object_literal [''errno'' \<mapsto> Number 105, ''code'' \<mapsto> Str ''x'']"]
      wrap_result_shape [of 0 "object_literal [''code'' \<mapsto> Number 400,
        ''message'' \<mapsto> Str ''Payload too big'']"]
      wrap_result_shape [of 0 "object_literal [''code'' \<mapsto> Number 400,
        ''message'' \<mapsto> Arr [Str ''Payload'', Obj [(''toString'', Null)]]]"]
    by (simp add: get_defaulted_literal)
qed

text \<open>
  Claim C1 as stated fails. \<^verbatim>\<open>wrap(null)\<close> and \<^verbatim>\<open>wrap({hasOwnProperty: 1})\<close> throw at
  line 38, and \<^verbatim>\<open>wrap({code: 400, message: {toString: 1}})\<close> throws at line 59. Among the
  calls that return, \<^verbatim>\<open>wrap({errno: "ECONNRESET"})\<close> returns the string as \<^verbatim>\<open>errno\<close>,
  \<^verbatim>\<open>wrap({code: 400.5})\<close> returns the status 400.5, and the unrecognized
  \<^verbatim>\<open>wrap({code: 503})\<close> is answered with 999 and 503, not 999 and 400.
\<close>

theorem never_throws_counterexample:
  "wrap 0 ArgNull = Inl TypeError \<and>
   wrap 0 (object_literal [''hasOwnProperty'' \<mapsto> Number 1]) = Inl TypeError \<and>
   wrap 0 (object_literal [''code'' \<mapsto> Number 400,
     ''message'' \<mapsto> Obj [(''toString'', Number 1)]]) = Inl TypeError \<and>
   returns 0 (object_literal [''errno'' \<mapsto> Str ''ECONNRESET'']) \<and>
   get (wire 0 (object_literal [''errno'' \<mapsto> Str ''ECONNRESET''])) ''errno'' = Str ''ECONNRESET'' \<and>
   \<not> is_integer (get (wire 0 (object_literal [''errno'' \<mapsto> Str ''ECONNRESET''])) ''errno'') \<and>
   returns 0 (object_literal [''code'' \<mapsto> Number (801 / 2)]) \<and>
   \<not> is_integer (get (wire 0 (object_literal [''code'' \<mapsto> Number (801 / 2)])) ''code'') \<and>
   returns 0 (object_literal [''code'' \<mapsto> Number 503]) \<and>
   get (wire 0 (object_literal [''code'' \<mapsto> Number 503])) ''errno'' = Number 999 \<and>
   get (wire 0 (object_literal [''code'' \<mapsto> Number 503])) ''code'' = Number 503"
proof -
  have u: "unclassified (object_literal [''code'' \<mapsto> Number 503])"
    and v: "unclassified (object_literal [''code'' \<mapsto> Number (801 / 2)])"
    by (simp_all add: unclassified_def)
  have n: "wrap 0 ArgNull = Inl TypeError"
    "wrap 0 (object_literal [''hasOwnProperty'' \<mapsto> Number 1]) = Inl TypeError"
    "wrap 0 (object_literal [''code'' \<mapsto> Number 400,
       ''message'' \<mapsto> Obj [(''toString'', Number 1)]]) = Inl TypeError"
    by (simp_all add: wrap_throws ordinary_iff get_defaulted_literal)
  show ?thesis
    using u v n fractional_status_not_integer
    by (simp add: wire_has_errno wire_999 sanitized_code_defaulted get_defaulted_literal
        del: is_integer.simps(1))
qed

text \<open>
  Claim C2, as the code has it. For every input on which line 38 returns and whose
  \<^verbatim>\<open>code\<close> is absent, \<^verbatim>\<open>wrap\<close> returns and the status is derived from \<^verbatim>\<open>errno\<close> by
  lines 68 to 72 alone: 401 when \<^verbatim>\<open>errno\<close> is 109, 110 or 111, and 400 for every other
  \<^verbatim>\<open>errno\<close> and for none. The module has no table of default statuses: 411, 413, 429
  and 503 only come from the helpers, which pass \<^verbatim>\<open>code\<close> themselves.
\<close>

theorem status_derived_from_errno:
  assumes "ordinary srcObject"
    and "field srcObject ''code'' = Undefined"
  shows "returns now srcObject \<and>
     get (wire now srcObject) ''code'' =
     (if field srcObject ''errno'' \<in> {Number 109, Number 110, Number 111}
      then Number 401 else Number 400)"
proof (cases "field srcObject ''errno'' = Undefined")
  case True
  then have "unclassified srcObject"
    using assms by (simp add: unclassified_def)
  then show ?thesis
    using assms True by (simp add: wire_999 sanitized_code_defaulted)
next
  case False
  then show ?thesis
    using assms by (simp add: wire_has_errno sanitized_code_defaulted)
qed

text \<open>
  \<^verbatim>\<open>wrap({errno: 110})\<close> has status 401; \<^verbatim>\<open>errno\<close> 105, 115 and 201 alone give 400.
\<close>

theorem status_derived_witness:
  "ordinary (object_literal [''errno'' \<mapsto> Number 110]) \<and>
   field (object_literal [''errno'' \<mapsto> Number 110]) ''code'' = Undefined \<and>
   returns 0 (object_literal [''errno'' \<mapsto> Number 110]) \<and>
   get (wire 0 (object_literal [''errno'' \<mapsto> Number 110])) ''code'' = Number 401 \<and>
   get (wire 0 (object_literal [''errno'' \<mapsto> Number 105])) ''code'' = Number 400 \<and>
   get (wire 0 (object_literal [''errno'' \<mapsto> Number 115])) ''code'' = Number 400 \<and>
   get (wire 0 (object_literal [''errno'' \<mapsto> Number 201])) ''code'' = Number 400"
  using status_derived_from_errno [of "object_literal [''errno'' \<mapsto> Number 110]" 0]
    status_derived_from_errno [of "object_literal [''errno'' \<mapsto> Number 105]" 0]
    status_derived_from_errno [of "object_literal [''errno'' \<mapsto> Number 115]" 0]
    status_derived_from_errno [of "object_literal [''errno'' \<mapsto> Number 201]" 0]
  by simp

text \<open>
  Claim C2 as stated fails: \<^verbatim>\<open>wrap({errno: 112})\<close> has status 400, not the 411 of the
  catalog entry.
\<close>

theorem catalog_default_counterexample:
  "returns 0 (object_literal [''errno'' \<mapsto> Number 112]) \<and>
   get (wire 0 (object_literal [''errno'' \<mapsto> Number 112])) ''code'' = Number 400 \<and>
   get (wire 0 (object_literal [''errno'' \<mapsto> Number 112])) ''code'' \<noteq> Number 411"
  by (simp add: wire_has_errno sanitized_code_defaulted)

text \<open>
  Claim C3, as the code has it. For every input on which line 38 returns, without an
  \<^verbatim>\<open>errno\<close> and with \<^verbatim>\<open>code\<close> 401, \<^verbatim>\<open>wrap\<close> returns, and the message that
  \<^verbatim>\<open>wrap\<close> reads (the input's own, or the default text when it has none) is matched
  exactly and in order: ``Unknown credentials'' and ``Invalid credentials'' give
  \<^verbatim>\<open>errno\<close> 110, ``Stale timestamp'' 111, ``Invalid nonce'' 115, and any other message
  109; the returned \<^verbatim>\<open>code\<close> is 401 in every case. On the last path the result carries
  the message that was read when it is truthy, and the generic ``Invalid request
  signature'' when it is the empty string or another falsy value (line 166).
\<close>

theorem code_401_classification:
  assumes "ordinary srcObject"
    and "field srcObject ''errno'' = Undefined"
    and "field srcObject ''code'' = Number 401"
  shows "returns now srcObject \<and>
     get (wire now srcObject) ''code'' = Number 401 \<and>
     get (wire now srcObject) ''errno'' =
       (if get (defaulted srcObject) ''message'' \<in>
             {Str ''Unknown credentials'', Str ''Invalid credentials''} then Number 110
        else if get (defaulted srcObject) ''message'' = Str ''Stale timestamp'' then Number 111
        else if get (defaulted srcObject) ''message'' = Str ''Invalid nonce'' then Number 115
        else Number 109) \<and>
     (get (defaulted srcObject) ''message'' \<notin>
        {Str ''Unknown credentials'', Str ''Invalid credentials'', Str ''Stale timestamp'',
         Str ''Invalid nonce''} \<longrightarrow>
      get (wire now srcObject) ''message'' =
        (if truthy (get (defaulted srcObject) ''message'')
         then get (defaulted srcObject) ''message''
         else Str ''Invalid request signature''))"
  using assms by (simp add: wire_401)

text \<open>
  \<^verbatim>\<open>wrap({code: 401, message: "Something else entirely"})\<close> has \<^verbatim>\<open>errno\<close> 109 and keeps
  its message; each of the four listed messages gets its \<^verbatim>\<open>errno\<close>.
\<close>

theorem code_401_witness:
  "ordinary (object_literal [''code'' \<mapsto> Number 401,
     ''message'' \<mapsto> Str ''Something else entirely'']) \<and>
   field (object_literal [''code'' \<mapsto> Number 401, ''message'' \<mapsto> Str ''Something else entirely''])
     ''errno'' = Undefined \<and>
   returns 0 (object_literal [''code'' \<mapsto> Number 401,
     ''message'' \<mapsto> Str ''Something else entirely'']) \<and>
   get (wire 0 (object_literal [''code'' \<mapsto> Number 401,
     ''message'' \<mapsto> Str ''Something else entirely''])) ''errno'' = Number 109 \<and>
   get (wire 0 (object_literal [''code'' \<mapsto> Number 401,
     ''message'' \<mapsto> Str ''Something else entirely''])) ''code'' = Number 401 \<and>
   get (wire 0 (object_literal [''code'' \<mapsto> Number 401,
     ''message'' \<mapsto> Str ''Something else entirely''])) ''message'' =
     Str ''Something else entirely'' \<and>
   get (wire 0 (object_literal [''code'' \<mapsto> Number 401,
     ''message'' \<mapsto> Str ''Unknown credentials''])) ''errno'' = Number 110 \<and>
   get (wire 0 (object_literal [''code'' \<mapsto> Number 401,
     ''message'' \<mapsto> Str ''Invalid credentials''])) ''errno'' = Number 110 \<and>
   get (wire 0 (object_literal [''code'' \<mapsto> Number 401,
     ''message'' \<mapsto> Str ''Stale timestamp''])) ''errno'' = Number 111 \<and>
   get (wire 0 (object_literal [''code'' \<mapsto> Number 401,
     ''message'' \<mapsto> Str ''Invalid nonce''])) ''errno'' = Number 115"
  using code_401_classification
      [of "object_literal [''code'' \<mapsto> Number 401, ''message'' \<mapsto> Str ''Something else entirely'']" 0]
    code_401_classification
      [of "object_literal [''code'' \<mapsto> Number 401, ''message'' \<mapsto> Str ''Unknown credentials'']" 0]
    code_401_classification
      [of "object_literal [''code'' \<mapsto> Number 401, ''message'' \<mapsto> Str ''Invalid credentials'']" 0]
    code_401_classification
      [of "object_literal [''code'' \<mapsto> Number 401, ''message'' \<mapsto> Str ''Stale timestamp'']" 0]
    code_401_classification
      [of "object_literal [''code'' \<mapsto> Number 401, ''message'' \<mapsto> Str ''Invalid nonce'']" 0]
  by (simp add: get_defaulted_literal)

text \<open>
  Claim C3 as stated fails: for \<^verbatim>\<open>wrap({code: 401, message: ""})\<close> the result has
  \<^verbatim>\<open>errno\<close> 109 and the generic template, not the input's (empty) message.
\<close>

theorem empty_message_counterexample:
  "field (object_literal [''code'' \<mapsto> Number 401, ''message'' \<mapsto> Str '''']) ''message'' = Str '''' \<and>
   returns 0 (object_literal [''code'' \<mapsto> Number 401, ''message'' \<mapsto> Str '''']) \<and>
   get (wire 0 (object_literal [''code'' \<mapsto> Number 401, ''message'' \<mapsto> Str '''']))
     ''errno'' = Number 109 \<and>
   get (wire 0 (object_literal [''code'' \<mapsto> Number 401, ''message'' \<mapsto> Str '''']))
     ''message'' = Str ''Invalid request signature''"
  by (simp add: wire_401 get_defaulted_literal)

text \<open>
  Claim C4, as the code has it. \<^verbatim>\<open>wrap\<close> logs exactly when the input reaches line 79
  with no \<^verbatim>\<open>errno\<close>: line 38 returns, the input carries no \<^verbatim>\<open>errno\<close>, and lines 43
  to 63 classify nothing (the test of line 59, where it is made, returns false). Then
  \<^verbatim>\<open>wrap\<close> returns and logs one event, at error severity, with \<^verbatim>\<open>op\<close> ``error.wrap'',
  \<^verbatim>\<open>msg\<close> ``unexpected error'' and \<^verbatim>\<open>err\<close> the working object (the input over the
  defaults, its status sanitized, no \<^verbatim>\<open>errno\<close> yet); on every other path, a call that
  throws included, nothing is logged. Such an input gets \<^verbatim>\<open>errno\<close> 999; its \<^verbatim>\<open>code\<close>
  is 400 when the input has none, 500 when the input's is not a number, and the input's
  own number otherwise.
\<close>

theorem unclassified_logged_once:
  "logged now srcObject =
     (if unclassified srcObject
      then [\<lparr>level = ''error'', op = ''error.wrap'', msg = ''unexpected error'',
              err = (defaulted srcObject)(''code'' \<mapsto> sanitized_code (defaulted srcObject))\<rparr>]
      else []) \<and>
   (unclassified srcObject \<longrightarrow>
      returns now srcObject \<and>
      get (wire now srcObject) ''errno'' = Number 999 \<and>
      get (wire now srcObject) ''code'' =
        (if field srcObject ''code'' = Undefined then Number 400
         else if typeof (field srcObject ''code'') \<noteq> ''number'' then Number 500
         else field srcObject ''code''))"
proof (cases srcObject rule: wrap_paths)
  case no_method
  then show ?thesis
    by (simp add: logged_def wrap_not_ordinary unclassified_def)
next
  case has_errno
  then show ?thesis
    by (simp add: wire_has_errno unclassified_def)
next
  case code_401
  then show ?thesis
    by (simp add: wire_401 unclassified_def)
next
  case no_text
  then show ?thesis
    by (simp add: logged_def wrap_no_text unclassified_def TOO_LARGE_test_def)
next
  case too_large
  then show ?thesis
    by (simp add: wire_413 unclassified_def)
next
  case unclassified
  then show ?thesis
    by (simp add: wire_999 sanitized_code_defaulted unclassified_no_errno)
qed

text \<open>
  \<^verbatim>\<open>wrap({})\<close> has \<^verbatim>\<open>errno\<close> 999 and \<^verbatim>\<open>code\<close> 400, and logs one event. An input with
  \<^verbatim>\<open>code\<close> 400 whose message is an array holding the sentence of the pattern is
  classified, and nothing is logged.
\<close>

theorem empty_input_witness:
  "unclassified (object_literal Map.empty) \<and>
   returns 0 (object_literal Map.empty) \<and>
   get (wire 0 (object_literal Map.empty)) ''errno'' = Number 999 \<and>
   get (wire 0 (object_literal Map.empty)) ''code'' = Number 400 \<and>
   logged 0 (object_literal Map.empty) =
     [\<lparr>level = ''error'', op = ''error.wrap'', msg = ''unexpected error'',
       err = DEFAULTS(''code'' \<mapsto> Number 400)\<rparr>] \<and>
   \<not> unclassified (object_literal [''code'' \<mapsto> Number 400,
       ''message'' \<mapsto> Arr [Str ''Payload size greater than maximum allowed'']]) \<and>
   logged 0 (object_literal [''code'' \<mapsto> Number 400,
       ''message'' \<mapsto> Arr [Str ''Payload size greater than maximum allowed'']]) = [] \<and>
   unclassified (object_literal [''code'' \<mapsto> Number 400,
       ''message'' \<mapsto> Str ''Payload too big'']) \<and>
   length (logged 0 (object_literal [''code'' \<mapsto> Number 400,
       ''message'' \<mapsto> Str ''Payload too big''])) = 1 \<and>
   get (wire 0 (object_literal [''code'' \<mapsto> Number 400,
       ''message'' \<mapsto> Str ''Payload too big''])) ''errno'' = Number 999"
proof -
  have u: "unclassified (object_literal Map.empty)"
    by (simp add: unclassified_def)
  have v: "\<not> unclassified (object_literal [''code'' \<mapsto> Number 400,
       ''message'' \<mapsto> Arr [Str ''Payload size greater than maximum allowed'']])"
    by (simp add: unclassified_def get_defaulted_literal TOO_LARGE_test_def)
  have w: "unclassified (object_literal [''code'' \<mapsto> Number 400,
       ''message'' \<mapsto> Str ''Payload too big''])"
    by (simp add: unclassified_def get_defaulted_literal TOO_LARGE_test_def)
  show ?thesis
    using u v w unclassified_logged_once [of 0 "object_literal Map.empty"]
      unclassified_logged_once [of 0 "object_literal [''code'' \<mapsto> Number 400,
       ''message'' \<mapsto> Arr [Str ''Payload size greater than maximum allowed'']]"]
      unclassified_logged_once [of 0 "object_literal [''code'' \<mapsto> Number 400,
       ''message'' \<mapsto> Str ''Payload too big'']"]
    by (simp add: defaulted_empty sanitized_code_def get_DEFAULTS)
qed

text \<open>
  Claim C4 as stated fails: \<^verbatim>\<open>wrap({code: 500})\<close> carries no \<^verbatim>\<open>errno\<close> and is not
  classified, and it returns \<^verbatim>\<open>errno\<close> 999 with \<^verbatim>\<open>code\<close> 500, not 400.
\<close>

theorem unclassified_code_counterexample:
  "unclassified (object_literal [''code'' \<mapsto> Number 500]) \<and>
   returns 0 (object_literal [''code'' \<mapsto> Number 500]) \<and>
   get (wire 0 (object_literal [''code'' \<mapsto> Number 500])) ''errno'' = Number 999 \<and>
   get (wire 0 (object_literal [''code'' \<mapsto> Number 500])) ''code'' = Number 500"
proof -
  have u: "unclassified (object_literal [''code'' \<mapsto> Number 500])"
    by (simp add: unclassified_def)
  show ?thesis
    using u by (simp add: wire_999 sanitized_code_defaulted)
qed

text \<open>
  Claim C5, as the code has it. When line 38 finds no \<^verbatim>\<open>message\<close> of its own on the
  input, \<^verbatim>\<open>wrap\<close> returns and the result's \<^verbatim>\<open>message\<close> is ``Unspecified error''; when
  line 38 returns and the input's \<^verbatim>\<open>message\<close> is a non-empty string, \<^verbatim>\<open>wrap\<close> returns
  and the result's \<^verbatim>\<open>message\<close> is a non-empty string. Line 39 copies any other
  \<^verbatim>\<open>message\<close> as it is.
\<close>

theorem message_of_result:
  "(hasOwnProperty srcObject ''message'' = Inr False \<longrightarrow>
      returns now srcObject \<and>
      get (wire now srcObject) ''message'' = Str ''Unspecified error'') \<and>
   (ordinary srcObject \<and> is_nonempty_string (get (own_props srcObject) ''message'') \<longrightarrow>
      returns now srcObject \<and>
      is_nonempty_string (get (wire now srcObject) ''message''))"
proof -
  have own: "own_props srcObject ''message'' \<noteq> None"
    if "is_nonempty_string (get (own_props srcObject) ''message'')"
    using that by (auto simp: get_def split: option.splits)
  have t: "truthy v" if "is_nonempty_string v" for v
    using that by (cases v) simp_all
  show ?thesis
  proof (cases srcObject rule: wrap_paths)
    case no_method
    then show ?thesis
      by (simp add: hasOwnProperty_ordinary)
  next
    case has_errno
    then show ?thesis
      using own by (auto simp: wire_has_errno defaulted_message hasOwnProperty_ordinary)
  next
    case code_401
    then show ?thesis
      using own t by (auto simp: wire_401 defaulted_message hasOwnProperty_ordinary)
  next
    case no_text
    then show ?thesis
      using own to_string_nonempty_string [of "get (own_props srcObject) ''message''"]
      by (auto simp: defaulted_message hasOwnProperty_ordinary)
  next
    case too_large
    then show ?thesis
      by (auto simp: wire_413 defaulted_message TOO_LARGE_test_def hasOwnProperty_ordinary)
  next
    case unclassified
    then show ?thesis
      using own by (auto simp: wire_999 defaulted_message hasOwnProperty_ordinary)
  qed
qed

text \<open>
  \<^verbatim>\<open>wrap({code: 401})\<close> has the default message; \<^verbatim>\<open>wrap({message: "disk full"})\<close> has a
  non-empty one.
\<close>

theorem message_of_result_witness:
  "hasOwnProperty (object_literal [''code'' \<mapsto> Number 401]) ''message'' = Inr False \<and>
   returns 0 (object_literal [''code'' \<mapsto> Number 401]) \<and>
   get (wire 0 (object_literal [''code'' \<mapsto> Number 401])) ''message'' = Str ''Unspecified error'' \<and>
   ordinary (object_literal [''message'' \<mapsto> Str ''disk full'']) \<and>
   is_nonempty_string (get (own_props (object_literal [''message'' \<mapsto> Str ''disk full'']))
     ''message'') \<and>
   returns 0 (object_literal [''message'' \<mapsto> Str ''disk full'']) \<and>
   is_nonempty_string (get (wire 0 (object_literal [''message'' \<mapsto> Str ''disk full'']))
     ''message'')"
  using message_of_result [of "object_literal [''code'' \<mapsto> Number 401]" 0]
    message_of_result [of "object_literal [''message'' \<mapsto> Str ''disk full'']" 0]
  by simp

text \<open>
  Claim C5 as stated fails: \<^verbatim>\<open>wrap({message: ""})\<close> returns the empty message.
\<close>

theorem empty_message_kept_counterexample:
  "returns 0 (object_literal [''message'' \<mapsto> Str '''']) \<and>
   get (wire 0 (object_literal [''message'' \<mapsto> Str ''''])) ''message'' = Str '''' \<and>
   \<not> is_nonempty_string (get (wire 0 (object_literal [''message'' \<mapsto> Str ''''])) ''message'')"
proof -
  have u: "unclassified (object_literal [''message'' \<mapsto> Str ''''])"
    by (simp add: unclassified_def)
  show ?thesis
    using u by (simp add: wire_999 get_defaulted_literal)
qed



text \<open>
  Claim C7. \<^verbatim>\<open>wrap({code: 401, message: "Stale timestamp"})\<close> returns \<^verbatim>\<open>errno\<close> 111,
  \<^verbatim>\<open>code\<close> 401 and a \<^verbatim>\<open>serverTime\<close> that is the clock reading in whole seconds since
  the epoch: it is at most the reading and less than one second behind it, whatever
  the clock shows.
\<close>

theorem stale_timestamp_server_time:
  "returns now (object_literal [''code'' \<mapsto> Number 401, ''message'' \<mapsto> Str ''Stale timestamp'']) \<and>
   get (wire now (object_literal [''code'' \<mapsto> Number 401, ''message'' \<mapsto> Str ''Stale timestamp'']))
     ''errno'' = Number 111 \<and>
   get (wire now (object_literal [''code'' \<mapsto> Number 401, ''message'' \<mapsto> Str ''Stale timestamp'']))
     ''code'' = Number 401 \<and>
   get (wire now (object_literal [''code'' \<mapsto> Number 401, ''message'' \<mapsto> Str ''Stale timestamp'']))
     ''serverTime'' = Number (of_int (now div 1000)) \<and>
   1000 * (now div 1000) \<le> now \<and> now < 1000 * (now div 1000) + 1000"
proof -
  let ?src = "object_literal [''code'' \<mapsto> Number 401, ''message'' \<mapsto> Str ''Stale timestamp'']"
  have o: "ordinary ?src"
    and e: "field ?src ''errno'' = Undefined"
    and c: "field ?src ''code'' = Number 401"
    and m: "get (defaulted ?src) ''message'' = Str ''Stale timestamp''"
    by (simp_all add: get_defaulted_literal)
  have t: "1000 * (now div 1000) \<le> now \<and> now < 1000 * (now div 1000) + 1000"
    by presburger
  show ?thesis
    using wire_401 [OF o e c, of now] wire_401_server_time [OF o e c m, of now] t
    by (simp add: m)
qed

text \<open>With the clock at 1500000999 ms, \<^verbatim>\<open>serverTime\<close> is 1500000.\<close>

theorem stale_timestamp_witness:
  "get (wire 1500000999 (object_literal [''code'' \<mapsto> Number 401,
     ''message'' \<mapsto> Str ''Stale timestamp''])) ''serverTime'' = Number 1500000 \<and>
   get (wire 1500000999 (object_literal [''code'' \<mapsto> Number 401,
     ''message'' \<mapsto> Str ''Stale timestamp''])) ''errno'' = Number 111"
  using stale_timestamp_server_time [of 1500000999] by simp





text \<open>
  Claim C10. \<^verbatim>\<open>wrap\<close> never mutates its argument, and the module-level \<^verbatim>\<open>DEFAULTS\<close>
  object is unchanged across calls. On the heap: after a call, whether it returns or
  throws, the argument and \<^verbatim>\<open>DEFAULTS\<close> are the objects they were, property for
  property, and so is every other object that existed before the call; all the call does
  to the heap is to add objects.
\<close>

theorem wrap_st_frame:
  assumes "srcObject < length h" and "DEFAULTS_ref < length h"
  shows "snd (wrap_st now srcObject h) ! srcObject = h ! srcObject \<and>
         snd (wrap_st now srcObject h) ! DEFAULTS_ref = h ! DEFAULTS_ref \<and>
         take (length h) (snd (wrap_st now srcObject h)) = h"
  using assms by (simp add: wrap_st_old wrap_st_prefix)

text \<open>
  After \<^verbatim>\<open>wrap({code: 401, message: "Stale timestamp"})\<close> on the heap of the loaded module,
  the argument and \<^verbatim>\<open>DEFAULTS\<close> are unchanged; so they are after the call
  \<^verbatim>\<open>wrap({hasOwnProperty: 1})\<close>, which throws.
\<close>

theorem wrap_st_frame_witness:
  "(1::nat) < length (module_heap @
      [plain [''code'' \<mapsto> Number 401, ''message'' \<mapsto> Str ''Stale timestamp'']]) \<and>
   snd (wrap_st 0 1 (module_heap @
      [plain [''code'' \<mapsto> Number 401, ''message'' \<mapsto> Str ''Stale timestamp'']])) ! 1 =
     plain [''code'' \<mapsto> Number 401, ''message'' \<mapsto> Str ''Stale timestamp''] \<and>
   snd (wrap_st 0 1 (module_heap @
      [plain [''code'' \<mapsto> Number 401, ''message'' \<mapsto> Str ''Stale timestamp'']])) ! DEFAULTS_ref =
     plain DEFAULTS \<and>
   snd (wrap_st 0 1 (module_heap @ [plain [''hasOwnProperty'' \<mapsto> Number 1]])) ! 1 =
     plain [''hasOwnProperty'' \<mapsto> Number 1] \<and>
   snd (wrap_st 0 1 (module_heap @ [plain [''hasOwnProperty'' \<mapsto> Number 1]])) ! DEFAULTS_ref =
     plain DEFAULTS"
  using wrap_st_frame [of 1 "module_heap @
      [plain [''code'' \<mapsto> Number 401, ''message'' \<mapsto> Str ''Stale timestamp'']]" 0]
    wrap_st_frame [of 1 "module_heap @ [plain [''hasOwnProperty'' \<mapsto> Number 1]]" 0]
  by (simp add: module_heap_def DEFAULTS_ref_def)

end
